theory Spec2Isabelle
  imports Main "HOL-Library.Word"
begin

section \<open>Python values, typed records and exceptions\<close>

text \<open>
  The wrapper only copies floating-point values; a float is carried as the 64-bit
  pattern of the double it holds.  Tuple elements handed over by the vendor binding
  are dynamically typed (the annotations of the dataclasses are not enforced), so they
  are values of \<open>pyval\<close>.
\<close>

type_synonym pyfloat = "64 word"

datatype pyval = PyNone | PyBool bool | PyInt int | PyFloat pyfloat | PyStr string

text \<open>\<^verbatim>\<open>@dataclass(frozen=True) class MT5LastError\<close>\<close>

record MT5LastError =
  error_code :: pyval
  error_description :: pyval

text \<open>\<^verbatim>\<open>@dataclass(frozen=True) class TerminalVersion\<close>\<close>

record TerminalVersion =
  metatrader5_terminal_version :: pyval
  build :: pyval
  date :: pyval

text \<open>
  Exceptions.  \<open>OSError\<close> carries the subclass that was raised (all of them are caught
  by \<^verbatim>\<open>except (PermissionError, OSError)\<close>).  The arguments of \<open>InitializeError\<close>
  and \<open>LoginError\<close> are the positional arguments of the \<^verbatim>\<open>raise\<close>.
  Every constructor is a subclass of Python's \<open>Exception\<close>.
\<close>

datatype oserror =
  PermissionError | FileNotFoundError | FileExistsError | IsADirectoryError | NotADirectoryError

datatype exc_arg = ArgStr string | ArgLastError MT5LastError

datatype value_error = NotAValid string int | NotInList

datatype pyexc =
    InitializeError "exc_arg list"
  | LoginError "exc_arg list"
  | ValueError value_error
  | IndexError
  | OSError oserror
  | ModuleNotFoundError string
  | FrozenInstanceError

section \<open>account\_properties.py: the three enumerations\<close>

datatype TradeMode = DEMO | CONTEST | REAL

datatype MarginSoMode = STOPOUT_MODE_PERCENT | STOPOUT_MODE_MONEY

datatype MarginMode = RETAIL_NETTING | EXCHANGE | RETAIL_HEDGING

text \<open>
  \<^verbatim>\<open>TradeMode(v)\<close> looks the member up by value and raises \<open>ValueError\<close> when
  no member has that value.
\<close>

definition TradeMode_call :: "int \<Rightarrow> pyexc + TradeMode" where
  "TradeMode_call v =
     (if v = 0 then Inr DEMO
      else if v = 1 then Inr CONTEST
      else if v = 2 then Inr REAL
      else Inl (ValueError (NotAValid ''TradeMode'' v)))"

definition MarginSoMode_call :: "int \<Rightarrow> pyexc + MarginSoMode" where
  "MarginSoMode_call v =
     (if v = 0 then Inr STOPOUT_MODE_PERCENT
      else if v = 1 then Inr STOPOUT_MODE_MONEY
      else Inl (ValueError (NotAValid ''MarginSoMode'' v)))"

definition MarginMode_call :: "int \<Rightarrow> pyexc + MarginMode" where
  "MarginMode_call v =
     (if v = 0 then Inr RETAIL_NETTING
      else if v = 1 then Inr EXCHANGE
      else if v = 2 then Inr RETAIL_HEDGING
      else Inl (ValueError (NotAValid ''MarginMode'' v)))"

section \<open>AccountInfo\<close>

text \<open>
  The object returned by the binding's \<^verbatim>\<open>account_info()\<close>, with the field types
  that \<^verbatim>\<open>AccountInfo.__init__\<close> annotates; the three mode fields are integer codes.
\<close>

record official_account_info =
  o_login :: int
  o_trade_mode :: int
  o_leverage :: int
  o_limit_orders :: int
  o_margin_so_mode :: int
  o_trade_allowed :: bool
  o_trade_expert :: bool
  o_margin_mode :: int
  o_currency_digits :: int
  o_fifo_close :: bool
  o_balance :: pyfloat
  o_credit :: pyfloat
  o_profit :: pyfloat
  o_equity :: pyfloat
  o_margin :: pyfloat
  o_margin_free :: pyfloat
  o_margin_level :: pyfloat
  o_margin_so_call :: pyfloat
  o_margin_so_so :: pyfloat
  o_margin_initial :: pyfloat
  o_margin_maintenance :: pyfloat
  o_assets :: pyfloat
  o_liabilities :: pyfloat
  o_commission_blocked :: pyfloat
  o_name :: string
  o_server :: string
  o_currency :: string
  o_company :: string

text \<open>\<^verbatim>\<open>class AccountInfo\<close>: a plain class, its attributes set by \<^verbatim>\<open>__init__\<close>.\<close>

record AccountInfo =
  login :: int
  trade_mode :: TradeMode
  leverage :: int
  limit_orders :: int
  margin_so_mode :: MarginSoMode
  trade_allowed :: bool
  trade_expert :: bool
  margin_mode :: MarginMode
  currency_digits :: int
  fifo_close :: bool
  balance :: pyfloat
  credit :: pyfloat
  profit :: pyfloat
  equity :: pyfloat
  margin :: pyfloat
  margin_free :: pyfloat
  margin_level :: pyfloat
  margin_so_call :: pyfloat
  margin_so_so :: pyfloat
  margin_initial :: pyfloat
  margin_maintenance :: pyfloat
  assets :: pyfloat
  liabilities :: pyfloat
  commission_blocked :: pyfloat
  name :: string
  server :: string
  currency :: string
  company :: string

text \<open>
  \<^verbatim>\<open>AccountInfo.__init__\<close>: the attributes are assigned in the order of the source, so
  the first enumeration that rejects its code decides the exception.
\<close>

definition AccountInfo_init :: "official_account_info \<Rightarrow> pyexc + AccountInfo" where
  "AccountInfo_init x =
     (case TradeMode_call (o_trade_mode x) of
        Inl e \<Rightarrow> Inl e
      | Inr tm \<Rightarrow>
     (case MarginSoMode_call (o_margin_so_mode x) of
        Inl e \<Rightarrow> Inl e
      | Inr sm \<Rightarrow>
     (case MarginMode_call (o_margin_mode x) of
        Inl e \<Rightarrow> Inl e
      | Inr mm \<Rightarrow>
        Inr \<lparr> login = o_login x,
              trade_mode = tm,
              leverage = o_leverage x,
              limit_orders = o_limit_orders x,
              margin_so_mode = sm,
              trade_allowed = o_trade_allowed x,
              trade_expert = o_trade_expert x,
              margin_mode = mm,
              currency_digits = o_currency_digits x,
              fifo_close = o_fifo_close x,
              balance = o_balance x,
              credit = o_credit x,
              profit = o_profit x,
              equity = o_equity x,
              margin = o_margin x,
              margin_free = o_margin_free x,
              margin_level = o_margin_level x,
              margin_so_call = o_margin_so_call x,
              margin_so_so = o_margin_so_so x,
              margin_initial = o_margin_initial x,
              margin_maintenance = o_margin_maintenance x,
              assets = o_assets x,
              liabilities = o_liabilities x,
              commission_blocked = o_commission_blocked x,
              name = o_name x,
              server = o_server x,
              currency = o_currency x,
              company = o_company x \<rparr>)))"

section \<open>Paths and the file system\<close>

text \<open>
  A \<^verbatim>\<open>pathlib.Path\<close> is the list of its components.  \<open>parent\<close> drops the last
  component, \<open>path_name\<close> is the last component (empty for the empty path) and
  \<open>path_str\<close> is \<^verbatim>\<open>str(path)\<close>.  \<open>path_parts\<close> reads an entry of
  \<^verbatim>\<open>sys.path\<close> back into components.
\<close>

type_synonym path = "string list"

definition parent :: "path \<Rightarrow> path" where
  "parent p = butlast p"

definition path_name :: "path \<Rightarrow> string" where
  "path_name p = (if p = [] then [] else last p)"

fun path_str :: "path \<Rightarrow> string" where
  "path_str [] = ''.''"
| "path_str [c] = c"
| "path_str (c # cs) = c @ ''/'' @ path_str cs"

primrec path_parts :: "string \<Rightarrow> path" where
  "path_parts [] = [[]]"
| "path_parts (c # cs) =
     (if c = CHR ''/'' then [] # path_parts cs
      else (case path_parts cs of [] \<Rightarrow> [[c]] | w # ws \<Rightarrow> (c # w) # ws))"

definition startswith :: "string \<Rightarrow> string \<Rightarrow> bool" where
  "startswith s pre = (take (length pre) s = pre)"

text \<open>
  The file system is an association list from paths to nodes, in directory iteration
  order; new entries are added at the end.  A directory carries whether this process may
  create and delete entries in it.
\<close>

datatype node = File string | Dir bool

type_synonym filesystem = "(path \<times> node) list"

definition exists_path :: "filesystem \<Rightarrow> path \<Rightarrow> bool" where
  "exists_path f p = (map_of f p \<noteq> None)"

definition is_dir :: "filesystem \<Rightarrow> path \<Rightarrow> bool" where
  "is_dir f p = (case map_of f p of Some (Dir w) \<Rightarrow> True | _ \<Rightarrow> False)"

definition writable_dir :: "filesystem \<Rightarrow> path \<Rightarrow> bool" where
  "writable_dir f p = (map_of f p = Some (Dir True))"

definition remove_entry :: "path \<Rightarrow> filesystem \<Rightarrow> filesystem" where
  "remove_entry p f = filter (\<lambda>e. fst e \<noteq> p) f"

text \<open>The error for creating an entry below a directory that cannot take it.\<close>

definition create_error :: "filesystem \<Rightarrow> path \<Rightarrow> oserror" where
  "create_error f d = (if is_dir f d then PermissionError else FileNotFoundError)"

text \<open>\<^verbatim>\<open>Path.touch()\<close>: an existing entry only has its times updated.\<close>

definition touch :: "path \<Rightarrow> filesystem \<Rightarrow> oserror + filesystem" where
  "touch p f =
     (if exists_path f p then Inr f
      else if writable_dir f (parent p) then Inr (f @ [(p, File [])])
      else Inl (create_error f (parent p)))"

text \<open>\<^verbatim>\<open>Path.unlink()\<close>\<close>

definition unlink :: "path \<Rightarrow> filesystem \<Rightarrow> oserror + filesystem" where
  "unlink p f =
     (case map_of f p of
        None \<Rightarrow> Inl FileNotFoundError
      | Some (Dir w) \<Rightarrow> Inl IsADirectoryError
      | Some (File c) \<Rightarrow>
          (if writable_dir f (parent p) then Inr (remove_entry p f)
           else Inl PermissionError))"

text \<open>\<^verbatim>\<open>Path.mkdir(exist_ok=True)\<close>\<close>

definition mkdir_exist_ok :: "path \<Rightarrow> filesystem \<Rightarrow> oserror + filesystem" where
  "mkdir_exist_ok p f =
     (case map_of f p of
        Some (Dir w) \<Rightarrow> Inr f
      | Some (File c) \<Rightarrow> Inl FileExistsError
      | None \<Rightarrow>
          (if writable_dir f (parent p) then Inr (f @ [(p, Dir True)])
           else Inl (create_error f (parent p))))"

text \<open>\<^verbatim>\<open>Path.iterdir()\<close>: the entries directly below a directory.\<close>

definition iterdir :: "path \<Rightarrow> filesystem \<Rightarrow> oserror + path list" where
  "iterdir d f =
     (case map_of f d of
        Some (Dir w) \<Rightarrow> Inr (filter (\<lambda>p. p \<noteq> [] \<and> parent p = d) (map fst f))
      | Some (File c) \<Rightarrow> Inl NotADirectoryError
      | None \<Rightarrow> Inl FileNotFoundError)"

text \<open>
  \<^verbatim>\<open>shutil.copytree(src, dst)\<close>: \<open>dst\<close> must not exist; every entry at or below
  \<open>src\<close> is copied to the same place below \<open>dst\<close>.
\<close>

definition copytree :: "path \<Rightarrow> path \<Rightarrow> filesystem \<Rightarrow> oserror + filesystem" where
  "copytree src dst f =
     (case map_of f src of
        None \<Rightarrow> Inl FileNotFoundError
      | Some (File c) \<Rightarrow> Inl NotADirectoryError
      | Some (Dir w) \<Rightarrow>
          (if exists_path f dst then Inl FileExistsError
           else if \<not> writable_dir f (parent dst) then Inl (create_error f (parent dst))
           else Inr (f @ map (\<lambda>e. (dst @ drop (length src) (fst e), snd e))
                            (filter (\<lambda>e. take (length src) (fst e) = src) f))))"

text \<open>
  \<^verbatim>\<open>Client.__add_ignore_comments__\<close>: opens the file with mode \<^verbatim>\<open>r+\<close>, reads it
  and writes the three comment lines, an empty line and the old text from offset 0.
\<close>

definition ignore_comments :: "string list" where
  "ignore_comments = [''# type: ignore'', ''# pyright: ignore'', ''# ruff: noqa'']"

fun join_lines :: "string list \<Rightarrow> string" where
  "join_lines [] = []"
| "join_lines [l] = l"
| "join_lines (l # ls) = l @ [CHR 0x0A] @ join_lines ls"

definition add_ignore_comments :: "path \<Rightarrow> filesystem \<Rightarrow> oserror + filesystem" where
  "add_ignore_comments file_path f =
     (case map_of f file_path of
        None \<Rightarrow> Inl FileNotFoundError
      | Some (Dir w) \<Rightarrow> Inl IsADirectoryError
      | Some (File lines) \<Rightarrow>
          Inr (map (\<lambda>e. if fst e = file_path
                         then (file_path,
                               File (join_lines ignore_comments @ [CHR 0x0A, CHR 0x0A] @ lines))
                         else e) f))"

section \<open>The process: module lookup path, module registry, vendor binding\<close>

text \<open>
  The vendor binding is closed source.  Its behaviour is a parameter: a state \<open>'b\<close> per
  imported copy and one function per operation the wrapper calls.  \<open>official_shutdown\<close>
  returns \<open>Some msg\<close> when the call raises an exception whose text is \<open>msg\<close>.
\<close>

record 'b official_module =
  official_fresh :: 'b
  official_initialize :: "string \<Rightarrow> int \<Rightarrow> string \<Rightarrow> string \<Rightarrow> int \<Rightarrow> bool \<Rightarrow> 'b \<Rightarrow> bool \<times> 'b"
  official_login :: "int \<Rightarrow> string \<Rightarrow> string \<Rightarrow> int \<Rightarrow> 'b \<Rightarrow> bool \<times> 'b"
  official_shutdown :: "'b \<Rightarrow> string option \<times> 'b"
  official_version :: "'b \<Rightarrow> pyval list \<times> 'b"
  official_last_error :: "'b \<Rightarrow> pyval list \<times> 'b"
  official_account_info :: "'b \<Rightarrow> official_account_info \<times> 'b"

text \<open>
  The state of the interpreter process and its surroundings: the file system, the
  \<^verbatim>\<open>origin\<close> that \<^verbatim>\<open>importlib.util.find_spec("MetaTrader5")\<close> reports (\<open>None\<close>
  when there is no spec or no origin), \<^verbatim>\<open>sys.path\<close>, \<^verbatim>\<open>sys.modules\<close> (module name to
  module object), the module objects with the state of their binding, and the lines
  printed so far.
\<close>

record 'b process =
  fs :: filesystem
  official_origin :: "path option"
  sys_path :: "string list"
  sys_modules :: "(string \<times> nat) list"
  module_objects :: "nat \<Rightarrow> 'b"
  next_module :: nat
  stdout :: "string list"

text \<open>The random values drawn by one construction: the two \<^verbatim>\<open>uuid.uuid4()\<close> calls.\<close>

record entropy =
  probe_uuid_hex :: string
  module_uuid_str :: string

definition OFFICIAL_MODULE_NAME :: string where
  "OFFICIAL_MODULE_NAME = ''MetaTrader5''"

text \<open>
  \<^verbatim>\<open>__import__(name)\<close>: a registered module is returned as it is; otherwise the
  entries of \<^verbatim>\<open>sys.path\<close> are searched for a package directory of that name, whose
  module object is created and registered.
\<close>

definition import_module ::
  "'b official_module \<Rightarrow> string \<Rightarrow> 'b process \<Rightarrow> (pyexc + nat) \<times> 'b process" where
  "import_module ops nm s =
     (case map_of (sys_modules s) nm of
        Some a \<Rightarrow> (Inr a, s)
      | None \<Rightarrow>
          (if list_ex (\<lambda>e. is_dir (fs s) (path_parts e @ [nm])) (sys_path s)
           then (Inr (next_module s),
                 s\<lparr> sys_modules := sys_modules s @ [(nm, next_module s)],
                    module_objects := (module_objects s)(next_module s := official_fresh ops),
                    next_module := Suc (next_module s) \<rparr>)
           else (Inl (ModuleNotFoundError nm), s)))"

section \<open>Client\<close>

text \<open>
  The attributes that \<^verbatim>\<open>__copy_and_import_official_module__\<close> sets on \<open>self\<close>,
  together with the module object it returns (stored as \<^verbatim>\<open>self.official\<close>), and the
  attributes of a constructed \<open>Client\<close>.
\<close>

record module_attrs =
  base_module_dir :: path
  module_dir :: path
  module_name_attr :: string
  module_id :: "string option"
  official :: nat

record Client = module_attrs +
  terminal_path :: path
  timeout :: int
  portable :: bool
  account_number :: int
  server_attr :: string

subsection \<open>Accessors: \<^verbatim>\<open>version\<close>, \<^verbatim>\<open>last_error\<close>, \<^verbatim>\<open>account_info\<close>\<close>

text \<open>Subscripting a tuple: \<open>IndexError\<close> beyond its length.\<close>

definition tuple_get :: "pyval list \<Rightarrow> nat \<Rightarrow> pyexc + pyval" where
  "tuple_get t i = (if i < length t then Inr (t ! i) else Inl IndexError)"

text \<open>Calling an operation of the binding on a module object stores the new state.\<close>

definition call_official ::
  "('b \<Rightarrow> 'a \<times> 'b) \<Rightarrow> nat \<Rightarrow> 'b process \<Rightarrow> 'a \<times> 'b process" where
  "call_official f a s =
     (case f (module_objects s a) of
        (r, b) \<Rightarrow> (r, s\<lparr> module_objects := (module_objects s)(a := b) \<rparr>))"

definition Client_version ::
  "'b official_module \<Rightarrow> 'z Client_scheme \<Rightarrow> 'b process \<Rightarrow> (pyexc + TerminalVersion) \<times> 'b process" where
  "Client_version ops self s =
     (case call_official (official_version ops) (official self) s of
        (version, s1) \<Rightarrow>
          (case tuple_get version 0 of
             Inl e \<Rightarrow> (Inl e, s1)
           | Inr v0 \<Rightarrow>
          (case tuple_get version 1 of
             Inl e \<Rightarrow> (Inl e, s1)
           | Inr v1 \<Rightarrow>
          (case tuple_get version 2 of
             Inl e \<Rightarrow> (Inl e, s1)
           | Inr v2 \<Rightarrow>
             (Inr \<lparr> metatrader5_terminal_version = v0, build = v1, date = v2 \<rparr>, s1)))))"

definition Client_last_error ::
  "'b official_module \<Rightarrow> 'z Client_scheme \<Rightarrow> 'b process \<Rightarrow> (pyexc + MT5LastError) \<times> 'b process" where
  "Client_last_error ops self s =
     (case call_official (official_last_error ops) (official self) s of
        (last_error, s1) \<Rightarrow>
          (case tuple_get last_error 0 of
             Inl e \<Rightarrow> (Inl e, s1)
           | Inr v0 \<Rightarrow>
          (case tuple_get last_error 1 of
             Inl e \<Rightarrow> (Inl e, s1)
           | Inr v1 \<Rightarrow>
             (Inr \<lparr> error_code = v0, error_description = v1 \<rparr>, s1))))"

definition Client_account_info ::
  "'b official_module \<Rightarrow> 'z Client_scheme \<Rightarrow> 'b process \<Rightarrow> (pyexc + AccountInfo) \<times> 'b process" where
  "Client_account_info ops self s =
     (case call_official (official_account_info ops) (official self) s of
        (x, s1) \<Rightarrow> (AccountInfo_init x, s1))"

subsection \<open>\<^verbatim>\<open>login\<close>\<close>

definition Client_login ::
  "'b official_module \<Rightarrow> 'z Client_scheme \<Rightarrow> int \<Rightarrow> string \<Rightarrow> string \<Rightarrow> int \<Rightarrow> 'b process
     \<Rightarrow> (pyexc + unit) \<times> 'b process" where
  "Client_login ops self account_number' password server' timeout' s =
     (case call_official (official_login ops account_number' password server' timeout')
             (official self) s of
        (ok, s1) \<Rightarrow>
          (if \<not> ok then
             (case Client_last_error ops self s1 of
                (Inl e, s2) \<Rightarrow> (Inl e, s2)
              | (Inr le, s2) \<Rightarrow> (Inl (LoginError [ArgLastError le]), s2))
           else (Inr (), s1\<lparr> stdout := stdout s1 @ [''Login successful''] \<rparr>)))"

subsection \<open>\<^verbatim>\<open>__copy_and_import_official_module__\<close>\<close>

definition no_write_permission :: "path \<Rightarrow> pyexc" where
  "no_write_permission tp =
     InitializeError
       [ArgStr (''No write permission in '' @ path_str tp @ ''. ''
                @ ''Please copy MetaTrader to a directory with write permissions ''
                @ ''(avoid system directories like Program Files, C:, root, etc)'')]"

definition probe_file :: "path \<Rightarrow> entropy \<Rightarrow> path" where
  "probe_file tp ent = parent tp @ [''py2mql5_test_'' @ take 8 (probe_uuid_hex ent)]"

text \<open>The block under \<^verbatim>\<open># Check write permissions\<close>.\<close>

definition check_write_permissions ::
  "path \<Rightarrow> entropy \<Rightarrow> 'b process \<Rightarrow> (pyexc + unit) \<times> 'b process" where
  "check_write_permissions tp ent s =
     (case touch (probe_file tp ent) (fs s) of
        Inl e \<Rightarrow> (Inl (no_write_permission tp), s)
      | Inr f1 \<Rightarrow>
          (case unlink (probe_file tp ent) f1 of
             Inl e \<Rightarrow> (Inl (no_write_permission tp), s\<lparr> fs := f1 \<rparr>)
           | Inr f2 \<Rightarrow> (Inr (), s\<lparr> fs := f2 \<rparr>)))"

text \<open>The list built under \<^verbatim>\<open># Find existing module\<close>, from the result of \<open>iterdir\<close>.\<close>

definition existing_modules :: "filesystem \<Rightarrow> path list \<Rightarrow> path list" where
  "existing_modules f ds =
     filter (\<lambda>d. is_dir f d \<and> startswith (path_name d) (OFFICIAL_MODULE_NAME @ ''_'')) ds"

text \<open>
  The \<^verbatim>\<open>else\<close> branch: a new module name, the copy of the installed package and the
  comment lines in its \<^verbatim>\<open>__init__.py\<close>.  \<open>official\<close> is set by the caller.
\<close>

definition new_module_copy ::
  "path \<Rightarrow> entropy \<Rightarrow> 'b process \<Rightarrow> (pyexc + module_attrs) \<times> 'b process" where
  "new_module_copy base ent s =
     (let mid = map (\<lambda>c. if c = CHR ''-'' then CHR ''_'' else c) (module_uuid_str ent);
          mname = OFFICIAL_MODULE_NAME @ ''_'' @ mid;
          mdir = base @ [mname]
      in case official_origin s of
           None \<Rightarrow>
             (Inl (InitializeError [ArgStr (''Module '' @ OFFICIAL_MODULE_NAME @ '' not found'')]), s)
         | Some origin \<Rightarrow>
             (case copytree (parent origin) mdir (fs s) of
                Inl e \<Rightarrow> (Inl (OSError e), s)
              | Inr f1 \<Rightarrow>
                  (case add_ignore_comments (mdir @ [''__init__.py'']) f1 of
                     Inl e \<Rightarrow> (Inl (OSError e), s\<lparr> fs := f1 \<rparr>)
                   | Inr f2 \<Rightarrow>
                       (Inr \<lparr> base_module_dir = base, module_dir = mdir, module_name_attr = mname,
                              module_id = Some mid, official = 0 \<rparr>,
                        s\<lparr> fs := f2 \<rparr>))))"

text \<open>The two lines under \<^verbatim>\<open># Import module\<close>.\<close>

definition append_and_import ::
  "'b official_module \<Rightarrow> module_attrs \<Rightarrow> 'b process \<Rightarrow> (pyexc + module_attrs) \<times> 'b process" where
  "append_and_import ops m s =
     (case import_module ops (module_name_attr m)
             (s\<lparr> sys_path := sys_path s @ [path_str (base_module_dir m)] \<rparr>) of
        (Inl e, s1) \<Rightarrow> (Inl e, s1)
      | (Inr a, s1) \<Rightarrow> (Inr (m\<lparr> official := a \<rparr>), s1))"

definition copy_and_import_official_module ::
  "'b official_module \<Rightarrow> path \<Rightarrow> entropy \<Rightarrow> 'b process \<Rightarrow> (pyexc + module_attrs) \<times> 'b process" where
  "copy_and_import_official_module ops tp ent s =
     (case check_write_permissions tp ent s of
        (Inl e, s1) \<Rightarrow> (Inl e, s1)
      | (Inr u, s1) \<Rightarrow>
          (let base = parent tp @ [''py2mql5''] in
           case mkdir_exist_ok base (fs s1) of
             Inl e \<Rightarrow> (Inl (OSError e), s1)
           | Inr f2 \<Rightarrow>
               (case iterdir base f2 of
                  Inl e \<Rightarrow> (Inl (OSError e), s1\<lparr> fs := f2 \<rparr>)
                | Inr ds \<Rightarrow>
                    (case existing_modules f2 ds of
                       d # rest \<Rightarrow>
                         append_and_import ops
                           \<lparr> base_module_dir = base, module_dir = d, module_name_attr = path_name d,
                             module_id = None, official = 0 \<rparr>
                           (s1\<lparr> fs := f2 \<rparr>)
                     | [] \<Rightarrow>
                         (case new_module_copy base ent (s1\<lparr> fs := f2 \<rparr>) of
                            (Inl e, s2) \<Rightarrow> (Inl e, s2)
                          | (Inr m, s2) \<Rightarrow> append_and_import ops m s2)))))"

subsection \<open>\<^verbatim>\<open>__init__\<close>\<close>

definition Client_init ::
  "'b official_module \<Rightarrow> path \<Rightarrow> int \<Rightarrow> string \<Rightarrow> string \<Rightarrow> int \<Rightarrow> entropy \<Rightarrow> 'b process
     \<Rightarrow> (pyexc + Client) \<times> 'b process" where
  "Client_init ops terminal_path' account_number' password server' timeout' ent s =
     (if \<not> exists_path (fs s) terminal_path' then
        (Inl (InitializeError
                [ArgStr (''Terminal path '' @ path_str terminal_path' @ '' does not exist'')]), s)
      else
        (case copy_and_import_official_module ops terminal_path' ent s of
           (Inl e, s1) \<Rightarrow> (Inl e, s1)
         | (Inr m, s1) \<Rightarrow>
             (let self =
                    \<lparr> base_module_dir = base_module_dir m, module_dir = module_dir m,
                      module_name_attr = module_name_attr m, module_id = module_id m,
                      official = official m, terminal_path = terminal_path',
                      timeout = timeout', portable = True, account_number = account_number',
                      server_attr = server' \<rparr>
              in case call_official
                        (official_initialize ops (path_str (terminal_path self))
                           (account_number self) password (server_attr self) (timeout self)
                           (portable self))
                        (official self) s1 of
                   (ok, s2) \<Rightarrow>
                     (if \<not> ok then
                        (case Client_last_error ops self s2 of
                           (Inl e, s3) \<Rightarrow> (Inl e, s3)
                         | (Inr le, s3) \<Rightarrow>
                             (Inl (InitializeError
                                     [ArgLastError le,
                                      ArgStr (''ensure you can login manually with portable mode: ''
                                              @ (if portable self then ''True'' else ''False''))]),
                              s3))
                      else
                        (Inr self,
                         s2\<lparr> stdout := stdout s2 @
                               [''Initialized successfully (hint: if you want multiple instances, ''
                                @ ''make sure to use different terminal paths)''] \<rparr>)))))"

subsection \<open>\<^verbatim>\<open>__del__\<close>\<close>

text \<open>
  \<^verbatim>\<open>list.remove(x)\<close> deletes the first occurrence and raises \<open>ValueError\<close> when there
  is none; \<^verbatim>\<open>dict.pop(key, None)\<close> never raises.
\<close>

definition list_remove :: "'a \<Rightarrow> 'a list \<Rightarrow> pyexc + 'a list" where
  "list_remove x xs = (if x \<in> set xs then Inr (remove1 x xs) else Inl (ValueError NotInList))"

definition dict_pop :: "'k \<Rightarrow> ('k \<times> 'v) list \<Rightarrow> ('k \<times> 'v) list" where
  "dict_pop k kvs = filter (\<lambda>e. fst e \<noteq> k) kvs"

definition Client_del ::
  "'b official_module \<Rightarrow> 'z Client_scheme \<Rightarrow> 'b process \<Rightarrow> (pyexc + unit) \<times> 'b process" where
  "Client_del ops self s =
     (case call_official (official_shutdown ops) (official self) s of
        (r, s1) \<Rightarrow>
          (let s2 = (case r of
                       None \<Rightarrow> s1
                     | Some e \<Rightarrow>
                         s1\<lparr> stdout := stdout s1 @
                               [''Error shutting down MetaTrader5: '' @ e @ '','' @ [CHR 0x0A]
                                @ module_name_attr self @ '' in '' @ path_str (module_dir self)] \<rparr>)
           in case list_remove (path_str (base_module_dir self)) (sys_path s2) of
                Inl e \<Rightarrow> (Inl e, s2)
              | Inr sp \<Rightarrow>
                  (Inr (), s2\<lparr> sys_path := sp,
                               sys_modules := dict_pop (module_name_attr self) (sys_modules s2) \<rparr>)))"

subsection \<open>A construction that fails at \<^verbatim>\<open>initialize\<close>\<close>



section \<open>Attribute assignment on the value objects\<close>

text \<open>
  The three classes whose instances the wrapper hands out.  \<open>frozen\<close> tells which class
  statements carry \<^verbatim>\<open>@dataclass(frozen=True)\<close>: \<open>MT5LastError\<close> and
  \<open>TerminalVersion\<close> do, \<^verbatim>\<open>class AccountInfo:\<close> is declared without a decorator
  and defines neither \<^verbatim>\<open>__setattr__\<close> nor \<^verbatim>\<open>__slots__\<close>.
\<close>

datatype wrapper_class = MT5LastError_class | TerminalVersion_class | AccountInfo_class

fun frozen :: "wrapper_class \<Rightarrow> bool" where
  "frozen MT5LastError_class = True"
| "frozen TerminalVersion_class = True"
| "frozen AccountInfo_class = False"

text \<open>
  The statement \<^verbatim>\<open>obj.attr = v\<close>: the \<^verbatim>\<open>__setattr__\<close> that the dataclass
  decorator generates for a frozen class raises \<open>FrozenInstanceError\<close>; any other
  class stores the value.
\<close>

definition setattr_allowed :: "wrapper_class \<Rightarrow> pyexc + unit" where
  "setattr_allowed c = (if frozen c then Inl FrozenInstanceError else Inr ())"

text \<open>An assignment to one attribute of an \<open>AccountInfo\<close>, with a value of the annotated type.\<close>

datatype AccountInfo_assignment =
    Set_login int
  | Set_trade_mode TradeMode
  | Set_leverage int
  | Set_limit_orders int
  | Set_margin_so_mode MarginSoMode
  | Set_trade_allowed bool
  | Set_trade_expert bool
  | Set_margin_mode MarginMode
  | Set_currency_digits int
  | Set_fifo_close bool
  | Set_balance pyfloat
  | Set_credit pyfloat
  | Set_profit pyfloat
  | Set_equity pyfloat
  | Set_margin pyfloat
  | Set_margin_free pyfloat
  | Set_margin_level pyfloat
  | Set_margin_so_call pyfloat
  | Set_margin_so_so pyfloat
  | Set_margin_initial pyfloat
  | Set_margin_maintenance pyfloat
  | Set_assets pyfloat
  | Set_liabilities pyfloat
  | Set_commission_blocked pyfloat
  | Set_name string
  | Set_server string
  | Set_currency string
  | Set_company string

fun AccountInfo_store :: "AccountInfo_assignment \<Rightarrow> AccountInfo \<Rightarrow> AccountInfo" where
  "AccountInfo_store (Set_login v) a = a\<lparr> login := v \<rparr>"
| "AccountInfo_store (Set_trade_mode v) a = a\<lparr> trade_mode := v \<rparr>"
| "AccountInfo_store (Set_leverage v) a = a\<lparr> leverage := v \<rparr>"
| "AccountInfo_store (Set_limit_orders v) a = a\<lparr> limit_orders := v \<rparr>"
| "AccountInfo_store (Set_margin_so_mode v) a = a\<lparr> margin_so_mode := v \<rparr>"
| "AccountInfo_store (Set_trade_allowed v) a = a\<lparr> trade_allowed := v \<rparr>"
| "AccountInfo_store (Set_trade_expert v) a = a\<lparr> trade_expert := v \<rparr>"
| "AccountInfo_store (Set_margin_mode v) a = a\<lparr> margin_mode := v \<rparr>"
| "AccountInfo_store (Set_currency_digits v) a = a\<lparr> currency_digits := v \<rparr>"
| "AccountInfo_store (Set_fifo_close v) a = a\<lparr> fifo_close := v \<rparr>"
| "AccountInfo_store (Set_balance v) a = a\<lparr> balance := v \<rparr>"
| "AccountInfo_store (Set_credit v) a = a\<lparr> credit := v \<rparr>"
| "AccountInfo_store (Set_profit v) a = a\<lparr> profit := v \<rparr>"
| "AccountInfo_store (Set_equity v) a = a\<lparr> equity := v \<rparr>"
| "AccountInfo_store (Set_margin v) a = a\<lparr> margin := v \<rparr>"
| "AccountInfo_store (Set_margin_free v) a = a\<lparr> margin_free := v \<rparr>"
| "AccountInfo_store (Set_margin_level v) a = a\<lparr> margin_level := v \<rparr>"
| "AccountInfo_store (Set_margin_so_call v) a = a\<lparr> margin_so_call := v \<rparr>"
| "AccountInfo_store (Set_margin_so_so v) a = a\<lparr> margin_so_so := v \<rparr>"
| "AccountInfo_store (Set_margin_initial v) a = a\<lparr> margin_initial := v \<rparr>"
| "AccountInfo_store (Set_margin_maintenance v) a = a\<lparr> margin_maintenance := v \<rparr>"
| "AccountInfo_store (Set_assets v) a = a\<lparr> assets := v \<rparr>"
| "AccountInfo_store (Set_liabilities v) a = a\<lparr> liabilities := v \<rparr>"
| "AccountInfo_store (Set_commission_blocked v) a = a\<lparr> commission_blocked := v \<rparr>"
| "AccountInfo_store (Set_name v) a = a\<lparr> name := v \<rparr>"
| "AccountInfo_store (Set_server v) a = a\<lparr> server := v \<rparr>"
| "AccountInfo_store (Set_currency v) a = a\<lparr> currency := v \<rparr>"
| "AccountInfo_store (Set_company v) a = a\<lparr> company := v \<rparr>"

definition AccountInfo_setattr :: "AccountInfo_assignment \<Rightarrow> AccountInfo \<Rightarrow> pyexc + AccountInfo" where
  "AccountInfo_setattr u a =
     (case setattr_allowed AccountInfo_class of
        Inl e \<Rightarrow> Inl e
      | Inr ok \<Rightarrow> Inr (AccountInfo_store u a))"

datatype MT5LastError_assignment = Set_error_code pyval | Set_error_description pyval

fun MT5LastError_store :: "MT5LastError_assignment \<Rightarrow> MT5LastError \<Rightarrow> MT5LastError" where
  "MT5LastError_store (Set_error_code v) a = a\<lparr> error_code := v \<rparr>"
| "MT5LastError_store (Set_error_description v) a = a\<lparr> error_description := v \<rparr>"

definition MT5LastError_setattr :: "MT5LastError_assignment \<Rightarrow> MT5LastError \<Rightarrow> pyexc + MT5LastError" where
  "MT5LastError_setattr u a =
     (case setattr_allowed MT5LastError_class of
        Inl e \<Rightarrow> Inl e
      | Inr ok \<Rightarrow> Inr (MT5LastError_store u a))"

datatype TerminalVersion_assignment =
  Set_metatrader5_terminal_version pyval | Set_build pyval | Set_date pyval

fun TerminalVersion_store :: "TerminalVersion_assignment \<Rightarrow> TerminalVersion \<Rightarrow> TerminalVersion" where
  "TerminalVersion_store (Set_metatrader5_terminal_version v) a = a\<lparr> metatrader5_terminal_version := v \<rparr>"
| "TerminalVersion_store (Set_build v) a = a\<lparr> build := v \<rparr>"
| "TerminalVersion_store (Set_date v) a = a\<lparr> date := v \<rparr>"

definition TerminalVersion_setattr ::
  "TerminalVersion_assignment \<Rightarrow> TerminalVersion \<Rightarrow> pyexc + TerminalVersion" where
  "TerminalVersion_setattr u a =
     (case setattr_allowed TerminalVersion_class of
        Inl e \<Rightarrow> Inl e
      | Inr ok \<Rightarrow> Inr (TerminalVersion_store u a))"

section \<open>Notions used by the properties\<close>

text \<open>
  The directories below \<open>base\<close> that the scan of \<^verbatim>\<open>__copy_and_import_official_module__\<close>
  accepts as an existing copy, in iteration order.
\<close>

definition module_dirs :: "filesystem \<Rightarrow> path \<Rightarrow> path list" where
  "module_dirs f base =
     existing_modules f (filter (\<lambda>p. p \<noteq> [] \<and> parent p = base) (map fst f))"

text \<open>The isolation directory of a terminal path.\<close>

definition isolation_dir :: "path \<Rightarrow> path" where
  "isolation_dir tp = parent tp @ [''py2mql5'']"

section \<open>A concrete run\<close>

text \<open>
  A terminal installed in a writable directory \<open>mt5\<close>, the vendor package installed under
  \<open>site\<close>, and a binding that records the operations called on it.  \<open>ok\<close> is the
  answer of \<open>initialize\<close> and \<open>login\<close>, \<open>sd\<close> the outcome of \<open>shutdown\<close>.
\<close>

definition ex_account :: official_account_info where
  "ex_account =
     \<lparr> o_login = 5001, o_trade_mode = 2, o_leverage = 100, o_limit_orders = 200,
       o_margin_so_mode = 0, o_trade_allowed = True, o_trade_expert = True, o_margin_mode = 2,
       o_currency_digits = 2, o_fifo_close = False, o_balance = 1, o_credit = 2, o_profit = 3,
       o_equity = 4, o_margin = 5, o_margin_free = 6, o_margin_level = 7, o_margin_so_call = 8,
       o_margin_so_so = 9, o_margin_initial = 10, o_margin_maintenance = 11, o_assets = 12,
       o_liabilities = 13, o_commission_blocked = 14, o_name = ''Ann'', o_server = ''Demo-1'',
       o_currency = ''USD'', o_company = ''Broker'' \<rparr>"

definition ex_info :: AccountInfo where
  "ex_info =
     \<lparr> login = 5001, trade_mode = REAL, leverage = 100, limit_orders = 200,
       margin_so_mode = STOPOUT_MODE_PERCENT, trade_allowed = True, trade_expert = True,
       margin_mode = RETAIL_HEDGING, currency_digits = 2, fifo_close = False, balance = 1,
       credit = 2, profit = 3, equity = 4, margin = 5, margin_free = 6, margin_level = 7,
       margin_so_call = 8, margin_so_so = 9, margin_initial = 10, margin_maintenance = 11,
       assets = 12, liabilities = 13, commission_blocked = 14, name = ''Ann'',
       server = ''Demo-1'', currency = ''USD'', company = ''Broker'' \<rparr>"

definition ex_official :: "bool \<Rightarrow> string option \<Rightarrow> (string list) official_module" where
  "ex_official ok sd =
     \<lparr> official_fresh = [],
       official_initialize = (\<lambda>p l pw sv t po b. (ok, b @ [''initialize''])),
       official_login = (\<lambda>l pw sv t b. (ok, b @ [''login''])),
       official_shutdown = (\<lambda>b. (sd, b @ [''shutdown''])),
       official_version =
         (\<lambda>b. ([PyInt 500, PyInt 2007, PyStr ''25 Feb 2019''], b @ [''version''])),
       official_last_error =
         (\<lambda>b. ([PyInt (- 6), PyStr ''Authorization failed''], b @ [''last_error''])),
       official_account_info = (\<lambda>b. (ex_account, b @ [''account_info''])) \<rparr>"

definition ex_fs :: filesystem where
  "ex_fs =
     [([''mt5''], Dir True),
      ([''mt5'', ''terminal64.exe''], File ''MZ''),
      ([''site''], Dir True),
      ([''site'', ''MetaTrader5''], Dir True),
      ([''site'', ''MetaTrader5'', ''__init__.py''], File ''import os'')]"

definition ex_process :: "(string list) process" where
  "ex_process =
     \<lparr> fs = ex_fs,
       official_origin = Some [''site'', ''MetaTrader5'', ''__init__.py''],
       sys_path = [''site''], sys_modules = [], module_objects = (\<lambda>a. []), next_module = 0,
       stdout = [] \<rparr>"

definition ex_entropy :: entropy where
  "ex_entropy =
     \<lparr> probe_uuid_hex = ''0123456789abcdef0123456789abcdef'',
       module_uuid_str = ''12345678-1234-4234-8234-123456789abc'' \<rparr>"

definition ex_terminal :: path where
  "ex_terminal = [''mt5'', ''terminal64.exe'']"

text \<open>What the first construction in that process leaves behind and returns.\<close>

definition ex_module_name :: string where
  "ex_module_name = ''MetaTrader5_12345678_1234_4234_8234_123456789abc''"

definition ex_fs1 :: filesystem where
  "ex_fs1 =
     ex_fs @
     [([''mt5'', ''py2mql5''], Dir True),
      ([''mt5'', ''py2mql5'', ex_module_name], Dir True),
      ([''mt5'', ''py2mql5'', ex_module_name, ''__init__.py''],
       File (''# type: ignore'' @ [CHR 0x0A] @ ''# pyright: ignore'' @ [CHR 0x0A]
             @ ''# ruff: noqa'' @ [CHR 0x0A, CHR 0x0A] @ ''import os''))]"

definition ex_module :: module_attrs where
  "ex_module =
     \<lparr> base_module_dir = [''mt5'', ''py2mql5''],
       module_dir = [''mt5'', ''py2mql5'', ex_module_name],
       module_name_attr = ex_module_name,
       module_id = Some ''12345678_1234_4234_8234_123456789abc'',
       official = 0 \<rparr>"

definition ex_client :: Client where
  "ex_client =
     \<lparr> base_module_dir = [''mt5'', ''py2mql5''],
       module_dir = [''mt5'', ''py2mql5'', ex_module_name],
       module_name_attr = ex_module_name,
       module_id = Some ''12345678_1234_4234_8234_123456789abc'',
       official = 0, terminal_path = ex_terminal, timeout = 60000, portable = True,
       account_number = 5001, server_attr = ''Demo-1'' \<rparr>"

definition ex_imported :: "(string list) process" where
  "ex_imported =
     \<lparr> fs = ex_fs1,
       official_origin = Some [''site'', ''MetaTrader5'', ''__init__.py''],
       sys_path = [''site'', ''mt5/py2mql5''], sys_modules = [(ex_module_name, 0)],
       module_objects = (\<lambda>a. [])(0 := []), next_module = 1, stdout = [] \<rparr>"

definition ex_constructed :: "(string list) process" where
  "ex_constructed =
     \<lparr> fs = ex_fs1,
       official_origin = Some [''site'', ''MetaTrader5'', ''__init__.py''],
       sys_path = [''site'', ''mt5/py2mql5''], sys_modules = [(ex_module_name, 0)],
       module_objects = (\<lambda>a. [])(0 := [''initialize'']), next_module = 1,
       stdout = [''Initialized successfully (hint: if you want multiple instances, ''
                 @ ''make sure to use different terminal paths)''] \<rparr>"

text \<open>A second construction against the same terminal, with other random values.\<close>

definition ex_entropy2 :: entropy where
  "ex_entropy2 =
     \<lparr> probe_uuid_hex = ''fedcba9876543210fedcba9876543210'',
       module_uuid_str = ''87654321-4321-4234-8234-cba987654321'' \<rparr>"



text \<open>The same terminal in a directory that this process may not write to.\<close>

definition ex_readonly :: "(string list) process" where
  "ex_readonly =
     \<lparr> fs = [([''mt5''], Dir False), ([''mt5'', ''terminal64.exe''], File ''MZ'')],
       official_origin = Some [''site'', ''MetaTrader5'', ''__init__.py''],
       sys_path = [''site''], sys_modules = [], module_objects = (\<lambda>a. []), next_module = 0,
       stdout = [] \<rparr>"

text \<open>A binding whose account object carries the given three mode codes.\<close>

definition ex_official_codes :: "int \<Rightarrow> int \<Rightarrow> int \<Rightarrow> (string list) official_module" where
  "ex_official_codes tm sm mm =
     (ex_official True None)
       \<lparr> official_account_info :=
           (\<lambda>b. (ex_account\<lparr> o_trade_mode := tm, o_margin_so_mode := sm, o_margin_mode := mm \<rparr>,
                 b @ [''account_info''])) \<rparr>"

section \<open>Auxiliary facts\<close>

lemma call_official_eq:
  "call_official f a s =
     (fst (f (module_objects s a)),
      s\<lparr> module_objects := (module_objects s)(a := snd (f (module_objects s a))) \<rparr>)"
  by (simp add: call_official_def case_prod_beta)

lemma parent_snoc [simp]: "parent (p @ [c]) = p"
  by (simp add: parent_def)

lemma path_name_snoc [simp]: "path_name (p @ [c]) = c"
  by (simp add: path_name_def)

lemma map_of_remove_entry: "map_of (remove_entry p f) q = (if q = p then None else map_of f q)"
  by (induction f) (auto simp: remove_entry_def)

lemma remove_entry_absent: "map_of f p = None \<Longrightarrow> remove_entry p f = f"
  by (induction f) (auto simp: remove_entry_def split: if_splits)

lemma remove_entry_snoc: "remove_entry p (f @ [(p, n)]) = remove_entry p f"
  by (simp add: remove_entry_def)


lemma exists_path_remove_entry: "exists_path (remove_entry p f) q = (q \<noteq> p \<and> exists_path f q)"
  by (simp add: exists_path_def map_of_remove_entry)

lemma is_dir_exists: "is_dir f p \<Longrightarrow> exists_path f p"
  by (auto simp: is_dir_def exists_path_def split: option.splits)

lemma map_of_append_left: "map_of f p = Some n \<Longrightarrow> map_of (f @ g) p = Some n"
  by (simp add: map_add_Some_iff)

lemma check_write_permissions_eq:
  "check_write_permissions tp ent s =
     (if writable_dir (fs s) (parent tp) \<and> \<not> is_dir (fs s) (probe_file tp ent)
      then (Inr (), s\<lparr> fs := remove_entry (probe_file tp ent) (fs s) \<rparr>)
      else (Inl (no_write_permission tp), s))"
proof (cases "map_of (fs s) (probe_file tp ent)")
  case None
  then show ?thesis
    by (auto simp: check_write_permissions_def touch_def unlink_def exists_path_def is_dir_def
        probe_file_def writable_dir_def map_of_append_left remove_entry_snoc
        remove_entry_absent map_add_def)
next
  case (Some n)
  then show ?thesis
    by (cases n)
      (auto simp: check_write_permissions_def touch_def unlink_def exists_path_def is_dir_def
        probe_file_def)
qed

lemma mkdir_exist_ok_cases:
  assumes "mkdir_exist_ok p f = Inr f'"
  shows "(f' = f \<and> is_dir f p) \<or> (f' = f @ [(p, Dir True)] \<and> \<not> exists_path f p)"
  using assms
  by (auto simp: mkdir_exist_ok_def is_dir_def exists_path_def
      split: option.splits node.splits if_splits)


lemma is_dir_append: "is_dir (f @ g) p = (if exists_path f p then is_dir f p else is_dir g p)"
  by (auto simp: is_dir_def exists_path_def map_add_def split: option.splits)

lemma exists_path_append: "exists_path (f @ g) p = (exists_path f p \<or> exists_path g p)"
  by (auto simp: exists_path_def map_add_def split: option.splits)

lemma iterdir_eq:
  "iterdir d f = Inr ds \<longleftrightarrow>
     is_dir f d \<and> ds = filter (\<lambda>p. p \<noteq> [] \<and> parent p = d) (map fst f)"
  by (auto simp: iterdir_def is_dir_def split: option.splits node.splits)

lemma is_dir_key: "is_dir f p \<Longrightarrow> p \<in> fst ` set f"
  by (auto simp: is_dir_def split: option.splits dest: map_of_SomeD intro: rev_image_eqI)

lemma set_module_dirs:
  "set (module_dirs f base) =
     {d. d \<noteq> [] \<and> parent d = base \<and> is_dir f d
         \<and> startswith (path_name d) (OFFICIAL_MODULE_NAME @ ''_'')}"
  by (auto simp: module_dirs_def existing_modules_def dest: is_dir_key)


lemma map_of_copied_root:
  assumes "map_of f src = Some n"
  shows "map_of (map (\<lambda>e. (dst @ drop (length src) (fst e), snd e))
                  (filter (\<lambda>e. take (length src) (fst e) = src) f)) dst = Some n"
  using assms
proof (induction f)
  case Nil
  then show ?case by simp
next
  case (Cons e f)
  show ?case
  proof (cases "fst e = src")
    case True
    with Cons.prems show ?thesis by (cases e) auto
  next
    case False
    have "take (length src) (fst e) = src \<Longrightarrow> drop (length src) (fst e) \<noteq> []"
      using False by (metis append_take_drop_id append_Nil2)
    with False Cons show ?thesis by (cases e) auto
  qed
qed

lemma copied_keys:
  assumes "q \<in> fst ` set (map (\<lambda>e. (dst @ drop (length src) (fst e), snd e))
                            (filter (\<lambda>e. take (length src) (fst e) = src) f))"
  shows "take (length dst) q = dst"
  using assms by auto

lemma copytree_facts:
  assumes "copytree src dst f = Inr f'"
  shows "\<exists>g. f' = f @ g \<and> is_dir g dst \<and> \<not> exists_path f dst
            \<and> (\<forall>q. exists_path g q \<longrightarrow> take (length dst) q = dst)"
proof -
  let ?g = "map (\<lambda>e. (dst @ drop (length src) (fst e), snd e))
              (filter (\<lambda>e. take (length src) (fst e) = src) f)"
  from assms obtain w where src: "map_of f src = Some (Dir w)"
    and nd: "\<not> exists_path f dst" and f': "f' = f @ ?g"
    by (auto simp: copytree_def split: option.splits node.splits if_splits)
  have "is_dir ?g dst"
    using map_of_copied_root [OF src, of dst] by (simp add: is_dir_def)
  moreover have "\<forall>q. exists_path ?g q \<longrightarrow> take (length dst) q = dst"
  proof (intro allI impI)
    fix q assume "exists_path ?g q"
    then have "q \<in> fst ` set ?g"
      by (simp add: exists_path_def map_of_eq_None_iff)
    then show "take (length dst) q = dst" by (rule copied_keys)
  qed
  ultimately show ?thesis using nd f' by blast
qed

lemma add_ignore_comments_map_of:
  assumes "add_ignore_comments p f = Inr f'"
  shows "\<exists>c. \<forall>q. map_of f' q = (if q = p then Some (File c) else map_of f q)"
proof -
  from assms obtain c where c: "map_of f p = Some (File c)"
    and f': "f' = map (\<lambda>e. if fst e = p
                 then (p, File (join_lines ignore_comments @ [CHR 0x0A, CHR 0x0A] @ c))
                 else e) f"
    by (auto simp: add_ignore_comments_def split: option.splits node.splits)
  let ?c = "join_lines ignore_comments @ [CHR 0x0A, CHR 0x0A] @ c"
  have "map_of (map (\<lambda>e. if fst e = p then (p, File ?c) else e) f) q =
          (if q = p then (case map_of f p of None \<Rightarrow> None | Some n \<Rightarrow> Some (File ?c))
           else map_of f q)" for q
    by (induction f) auto
  with c f' show ?thesis by auto
qed

lemma add_ignore_comments_is_dir:
  assumes "add_ignore_comments p f = Inr f'"
  shows "is_dir f' q = is_dir f q"
proof -
  from assms have "\<exists>c. map_of f p = Some (File c)"
    by (auto simp: add_ignore_comments_def split: option.splits node.splits)
  with add_ignore_comments_map_of [OF assms] show ?thesis
    by (cases "q = p") (auto simp: is_dir_def)
qed

lemma add_ignore_comments_exists:
  assumes "add_ignore_comments p f = Inr f'"
  shows "exists_path f' q = exists_path f q"
proof -
  from assms have "\<exists>c. map_of f p = Some (File c)"
    by (auto simp: add_ignore_comments_def split: option.splits node.splits)
  with add_ignore_comments_map_of [OF assms] show ?thesis
    by (cases "q = p") (auto simp: exists_path_def)
qed

lemma new_module_copy_facts:
  assumes "new_module_copy base ent s = (Inr m, s')"
  shows "base_module_dir m = base"
    and "module_dir m = base @ [module_name_attr m]"
    and "startswith (module_name_attr m) (OFFICIAL_MODULE_NAME @ ''_'')"
    and "s' = s\<lparr> fs := fs s' \<rparr>"
    and "is_dir (fs s') (module_dir m)"
    and "is_dir (fs s') q \<Longrightarrow> is_dir (fs s) q \<or> take (length (module_dir m)) q = module_dir m"
    and "exists_path (fs s') q \<Longrightarrow>
           exists_path (fs s) q \<or> take (length (module_dir m)) q = module_dir m"
    and "is_dir (fs s) q \<Longrightarrow> is_dir (fs s') q"
proof -
  define mid where "mid = map (\<lambda>c. if c = CHR ''-'' then CHR ''_'' else c) (module_uuid_str ent)"
  define mname where "mname = OFFICIAL_MODULE_NAME @ ''_'' @ mid"
  define mdir where "mdir = base @ [mname]"
  from assms obtain origin f1 f2 where
    ct: "copytree (parent origin) mdir (fs s) = Inr f1"
    and ai: "add_ignore_comments (mdir @ [''__init__.py'']) f1 = Inr f2"
    and m: "m = \<lparr> base_module_dir = base, module_dir = mdir, module_name_attr = mname,
                  module_id = Some mid, official = 0 \<rparr>"
    and s': "s' = s\<lparr> fs := f2 \<rparr>"
    by (auto simp: new_module_copy_def Let_def mid_def mname_def mdir_def
        split: option.splits sum.splits)
  from copytree_facts [OF ct] obtain g where g: "f1 = fs s @ g" "is_dir g mdir"
    "\<not> exists_path (fs s) mdir" "\<forall>q. exists_path g q \<longrightarrow> take (length mdir) q = mdir"
    by blast
  show "base_module_dir m = base" by (simp add: m)
  show "module_dir m = base @ [module_name_attr m]" by (simp add: m mdir_def)
  show "startswith (module_name_attr m) (OFFICIAL_MODULE_NAME @ ''_'')"
    by (simp add: m mname_def startswith_def)
  show "s' = s\<lparr> fs := fs s' \<rparr>" by (simp add: s')
  show "is_dir (fs s') (module_dir m)"
    using g by (simp add: s' m add_ignore_comments_is_dir [OF ai] is_dir_append)
  show "is_dir (fs s) q \<or> take (length (module_dir m)) q = module_dir m" if "is_dir (fs s') q"
    using that g
    by (auto simp: s' m add_ignore_comments_is_dir [OF ai] is_dir_append
        dest: is_dir_exists split: if_splits)
  show "exists_path (fs s) q \<or> take (length (module_dir m)) q = module_dir m"
    if "exists_path (fs s') q"
    using that g
    by (auto simp: s' m add_ignore_comments_exists [OF ai] exists_path_append)
  show "is_dir (fs s') q" if "is_dir (fs s) q"
    using that g
    by (auto simp: s' m add_ignore_comments_is_dir [OF ai] is_dir_append dest: is_dir_exists)
qed

lemma import_module_facts:
  assumes "import_module ops nm s = (Inr a, s')"
  shows "map_of (sys_modules s') nm = Some a"
    and "fs s' = fs s" and "sys_path s' = sys_path s" and "stdout s' = stdout s"
    and "official_origin s' = official_origin s"
  using assms
  by (auto simp: import_module_def map_add_def split: option.splits if_splits)

lemma import_module_error:
  assumes "import_module ops nm s = (Inl e, s')"
  shows "s' = s"
  using assms
  by (auto simp: import_module_def split: option.splits if_splits)

lemma append_and_import_facts:
  assumes "append_and_import ops m s = (Inr m', s')"
  shows "m' = m\<lparr> official := official m' \<rparr>"
    and "sys_path s' = sys_path s @ [path_str (base_module_dir m)]"
    and "map_of (sys_modules s') (module_name_attr m) = Some (official m')"
    and "fs s' = fs s" and "stdout s' = stdout s"
proof -
  let ?s0 = "s\<lparr> sys_path := sys_path s @ [path_str (base_module_dir m)] \<rparr>"
  from assms obtain a where im: "import_module ops (module_name_attr m) ?s0 = (Inr a, s')"
    and m': "m' = m\<lparr> official := a \<rparr>"
    by (auto simp: append_and_import_def split: prod.splits sum.splits)
  show "m' = m\<lparr> official := official m' \<rparr>" by (simp add: m')
  show "sys_path s' = sys_path s @ [path_str (base_module_dir m)]"
    using import_module_facts(3) [OF im] by simp
  show "map_of (sys_modules s') (module_name_attr m) = Some (official m')"
    using import_module_facts(1) [OF im] by (simp add: m')
  show "fs s' = fs s" using import_module_facts(2) [OF im] by simp
  show "stdout s' = stdout s" using import_module_facts(4) [OF im] by simp
qed

lemma append_and_import_error:
  assumes "append_and_import ops m s = (Inl e, s')"
  shows "fs s' = fs s"
  using assms
  by (auto simp: append_and_import_def split: prod.splits sum.splits dest: import_module_error)

lemma isolation_dir_not_probe [simp]: "isolation_dir tp \<noteq> probe_file tp ent"
  by (simp add: isolation_dir_def probe_file_def)

lemma probe_not_isolation_dir [simp]: "probe_file tp ent \<noteq> isolation_dir tp"
  by (simp add: isolation_dir_def probe_file_def)

lemma exists_path_snoc: "exists_path (f @ [(p, n)]) q = (exists_path f q \<or> q = p)"
  by (auto simp: exists_path_def map_add_def split: option.splits)

lemma probe_not_below_module:
  "take (length (isolation_dir tp @ [n])) (probe_file tp ent) \<noteq> isolation_dir tp @ [n]"
  by (simp add: isolation_dir_def probe_file_def)

lemma copy_and_import_success_cases:
  assumes "copy_and_import_official_module ops tp ent s = (Inr m, s1)"
  shows "writable_dir (fs s) (parent tp) \<and> \<not> is_dir (fs s) (probe_file tp ent) \<and>
         (\<exists>f2. mkdir_exist_ok (isolation_dir tp) (remove_entry (probe_file tp ent) (fs s)) = Inr f2
            \<and> is_dir f2 (isolation_dir tp)
            \<and> ((\<exists>d rest. module_dirs f2 (isolation_dir tp) = d # rest
                   \<and> append_and_import ops
                        \<lparr> base_module_dir = isolation_dir tp, module_dir = d,
                          module_name_attr = path_name d, module_id = None, official = 0 \<rparr>
                        (s\<lparr> fs := f2 \<rparr>) = (Inr m, s1))
               \<or> (module_dirs f2 (isolation_dir tp) = []
                   \<and> (\<exists>m0 s2. new_module_copy (isolation_dir tp) ent (s\<lparr> fs := f2 \<rparr>) = (Inr m0, s2)
                         \<and> append_and_import ops m0 s2 = (Inr m, s1)))))"
  using assms
  by (auto simp: copy_and_import_official_module_def check_write_permissions_eq Let_def
      isolation_dir_def [symmetric] iterdir_eq module_dirs_def [symmetric]
      split: if_splits sum.splits list.splits prod.splits)

lemma singleton_set_list: "set xs = {d} \<Longrightarrow> \<exists>rest. xs = d # rest"
  by (cases xs) auto

lemma copy_and_import_success:
  assumes "copy_and_import_official_module ops tp ent s = (Inr m, s1)"
  shows "base_module_dir m = isolation_dir tp"
    and "sys_path s1 = sys_path s @ [path_str (isolation_dir tp)]"
    and "map_of (sys_modules s1) (module_name_attr m) = Some (official m)"
    and "is_dir (fs s1) (isolation_dir tp)"
    and "\<exists>rest. module_dirs (fs s1) (isolation_dir tp) = module_dir m # rest"
    and "module_name_attr m = path_name (module_dir m)"
    and "\<not> exists_path (fs s1) (probe_file tp ent)"
    and "writable_dir (fs s) (parent tp)"
    and "stdout s1 = stdout s"
proof -
  let ?base = "isolation_dir tp"
  let ?probe = "probe_file tp ent"
  from copy_and_import_success_cases [OF assms] obtain f2 where
    wr: "writable_dir (fs s) (parent tp)"
    and mk: "mkdir_exist_ok ?base (remove_entry ?probe (fs s)) = Inr f2"
    and bd: "is_dir f2 ?base"
    and cases: "(\<exists>d rest. module_dirs f2 ?base = d # rest
                   \<and> append_and_import ops
                        \<lparr> base_module_dir = ?base, module_dir = d,
                          module_name_attr = path_name d, module_id = None, official = 0 \<rparr>
                        (s\<lparr> fs := f2 \<rparr>) = (Inr m, s1))
               \<or> (module_dirs f2 ?base = []
                   \<and> (\<exists>m0 s2. new_module_copy ?base ent (s\<lparr> fs := f2 \<rparr>) = (Inr m0, s2)
                         \<and> append_and_import ops m0 s2 = (Inr m, s1)))"
    by blast
  have np: "\<not> exists_path f2 ?probe"
    using mkdir_exist_ok_cases [OF mk]
    by (auto simp: exists_path_remove_entry exists_path_snoc)
  show "writable_dir (fs s) (parent tp)" by (rule wr)
  from cases have
    "base_module_dir m = ?base
     \<and> sys_path s1 = sys_path s @ [path_str ?base]
     \<and> map_of (sys_modules s1) (module_name_attr m) = Some (official m)
     \<and> is_dir (fs s1) ?base
     \<and> (\<exists>rest. module_dirs (fs s1) ?base = module_dir m # rest)
     \<and> module_name_attr m = path_name (module_dir m)
     \<and> \<not> exists_path (fs s1) ?probe
     \<and> stdout s1 = stdout s"
  proof (elim disjE exE conjE)
    fix d rest
    assume md: "module_dirs f2 ?base = d # rest"
      and ai: "append_and_import ops
                 \<lparr> base_module_dir = ?base, module_dir = d,
                   module_name_attr = path_name d, module_id = None, official = 0 \<rparr>
                 (s\<lparr> fs := f2 \<rparr>) = (Inr m, s1)"
    note f = append_and_import_facts [OF ai]
    have m: "base_module_dir m = ?base" "module_dir m = d" "module_name_attr m = path_name d"
      by (subst f(1), simp)+
    show ?thesis
      using f(2-5) md bd np by (simp add: m)
  next
    fix m0 s2
    assume md: "module_dirs f2 ?base = []"
      and nm: "new_module_copy ?base ent (s\<lparr> fs := f2 \<rparr>) = (Inr m0, s2)"
      and ai: "append_and_import ops m0 s2 = (Inr m, s1)"
    note f = append_and_import_facts [OF ai]
    note n = new_module_copy_facts [OF nm]
    have m: "base_module_dir m = ?base" "module_dir m = module_dir m0"
      "module_name_attr m = module_name_attr m0"
      by (subst f(1), simp add: n(1))+
    have s2: "sys_path s2 = sys_path s" "stdout s2 = stdout s"
      by (subst n(4), simp)+
    have dir0: "module_dir m0 = ?base @ [module_name_attr m0]"
      using n(1,2) by simp
    have "set (module_dirs (fs s2) ?base) = {module_dir m0}"
    proof (intro equalityI subsetI)
      fix q assume "q \<in> set (module_dirs (fs s2) ?base)"
      then have q: "q \<noteq> []" "parent q = ?base" "is_dir (fs s2) q"
        "startswith (path_name q) (OFFICIAL_MODULE_NAME @ ''_'')"
        by (auto simp: set_module_dirs)
      from n(6) [OF q(3)] have "is_dir f2 q \<or> take (length (module_dir m0)) q = module_dir m0"
        by simp
      then have "q = module_dir m0"
      proof
        assume "is_dir f2 q"
        with q have "q \<in> set (module_dirs f2 ?base)" by (simp add: set_module_dirs)
        with md show ?thesis by simp
      next
        assume t: "take (length (module_dir m0)) q = module_dir m0"
        from q(1,2) have "length q = Suc (length ?base)"
          by (cases q rule: rev_cases) auto
        with t show ?thesis by (simp add: dir0)
      qed
      then show "q \<in> {module_dir m0}" by simp
    next
      fix q assume "q \<in> {module_dir m0}"
      then show "q \<in> set (module_dirs (fs s2) ?base)"
        using n(3,5) by (simp add: set_module_dirs dir0)
    qed
    then have md2: "\<exists>rest. module_dirs (fs s2) ?base = module_dir m0 # rest"
      by (rule singleton_set_list)
    have np2: "\<not> exists_path (fs s2) ?probe"
    proof
      assume "exists_path (fs s2) ?probe"
      from n(7) [OF this] show False
        using np probe_not_below_module [of tp "module_name_attr m0" ent]
        by (simp add: dir0)
    qed
    have bd2: "is_dir (fs s2) ?base"
      using n(8) [of ?base] bd by simp
    show ?thesis
      using f(2-5) md2 np2 bd2 by (simp add: m s2 n(1) dir0)
  qed
  then show "base_module_dir m = isolation_dir tp"
    and "sys_path s1 = sys_path s @ [path_str (isolation_dir tp)]"
    and "map_of (sys_modules s1) (module_name_attr m) = Some (official m)"
    and "is_dir (fs s1) (isolation_dir tp)"
    and "\<exists>rest. module_dirs (fs s1) (isolation_dir tp) = module_dir m # rest"
    and "module_name_attr m = path_name (module_dir m)"
    and "\<not> exists_path (fs s1) (probe_file tp ent)"
    and "stdout s1 = stdout s"
    by blast+
qed

lemma Client_last_error_eq:
  assumes "official_last_error ops (module_objects s (official self)) = (t, b)"
  shows "Client_last_error ops self s =
           ((if 2 \<le> length t
             then Inr \<lparr> error_code = t ! 0, error_description = t ! 1 \<rparr>
             else Inl IndexError),
            s\<lparr> module_objects := (module_objects s)(official self := b) \<rparr>)"
  using assms by (auto simp: Client_last_error_def call_official_eq tuple_get_def)



lemma Client_init_after_import:
  assumes "exists_path (fs s) tp"
    and "copy_and_import_official_module ops tp ent s = (Inr m, s1)"
    and "official_initialize ops (path_str tp) acct pw srv tmo True
           (module_objects s1 (official m)) = (ok, b)"
    and "official_last_error ops b = (t, b')"
  shows "Client_init ops tp acct pw srv tmo ent s =
           (if ok
            then (Inr \<lparr> base_module_dir = base_module_dir m, module_dir = module_dir m,
                        module_name_attr = module_name_attr m, module_id = module_id m,
                        official = official m, terminal_path = tp, timeout = tmo,
                        portable = True, account_number = acct, server_attr = srv \<rparr>,
                  s1\<lparr> module_objects := (module_objects s1)(official m := b),
                      stdout := stdout s1 @
                        [''Initialized successfully (hint: if you want multiple instances, ''
                         @ ''make sure to use different terminal paths)''] \<rparr>)
            else ((if 2 \<le> length t
                   then Inl (InitializeError
                          [ArgLastError \<lparr> error_code = t ! 0, error_description = t ! 1 \<rparr>,
                           ArgStr ''ensure you can login manually with portable mode: True''])
                   else Inl IndexError),
                  s1\<lparr> module_objects := (module_objects s1)(official m := b') \<rparr>))"
proof -
  let ?self = "\<lparr> base_module_dir = base_module_dir m, module_dir = module_dir m,
                  module_name_attr = module_name_attr m, module_id = module_id m,
                  official = official m, terminal_path = tp, timeout = tmo,
                  portable = True, account_number = acct, server_attr = srv \<rparr>"
  let ?s2 = "s1\<lparr> module_objects := (module_objects s1)(official m := b) \<rparr>"
  have le: "official_last_error ops (module_objects ?s2 (official ?self)) = (t, b')"
    using assms(4) by simp
  show ?thesis
    using assms(1,2,3)
    by (simp add: Client_init_def Let_def call_official_eq Client_last_error_eq [OF le])
qed

lemma Client_init_success:
  assumes "Client_init ops tp acct pw srv tmo ent s = (Inr c, s')"
  shows "\<exists>m s1. exists_path (fs s) tp
           \<and> copy_and_import_official_module ops tp ent s = (Inr m, s1)
           \<and> base_module_dir c = base_module_dir m \<and> module_dir c = module_dir m
           \<and> module_name_attr c = module_name_attr m \<and> module_id c = module_id m
           \<and> official c = official m
           \<and> fs s' = fs s1 \<and> sys_path s' = sys_path s1 \<and> sys_modules s' = sys_modules s1"
proof -
  from assms have ex: "exists_path (fs s) tp"
    by (auto simp: Client_init_def split: if_splits)
  obtain r s1 where ci: "copy_and_import_official_module ops tp ent s = (r, s1)"
    by (cases "copy_and_import_official_module ops tp ent s")
  from assms ex ci obtain m where r: "r = Inr m"
    by (cases r) (auto simp: Client_init_def)
  obtain ok b where i: "official_initialize ops (path_str tp) acct pw srv tmo True
           (module_objects s1 (official m)) = (ok, b)"
    by (cases "official_initialize ops (path_str tp) acct pw srv tmo True
           (module_objects s1 (official m))")
  obtain t b' where l: "official_last_error ops b = (t, b')"
    by (cases "official_last_error ops b")
  from assms show ?thesis
    unfolding Client_init_after_import [OF ex ci [unfolded r] i l]
    using ex ci r by (auto split: if_splits)
qed

lemma Client_init_fs:
  "fs (snd (Client_init ops tp acct pw srv tmo ent s)) =
     (if exists_path (fs s) tp then fs (snd (copy_and_import_official_module ops tp ent s))
      else fs s)"
proof (cases "exists_path (fs s) tp")
  case False
  then show ?thesis by (simp add: Client_init_def)
next
  case ex: True
  obtain r s1 where ci: "copy_and_import_official_module ops tp ent s = (r, s1)"
    by (cases "copy_and_import_official_module ops tp ent s")
  show ?thesis
  proof (cases r)
    case (Inl e)
    with ex ci show ?thesis by (simp add: Client_init_def)
  next
    case (Inr m)
    obtain ok b where i: "official_initialize ops (path_str tp) acct pw srv tmo True
           (module_objects s1 (official m)) = (ok, b)"
      by (cases "official_initialize ops (path_str tp) acct pw srv tmo True
           (module_objects s1 (official m))")
    obtain t b' where l: "official_last_error ops b = (t, b')"
      by (cases "official_last_error ops b")
    show ?thesis
      unfolding Client_init_after_import [OF ex ci [unfolded Inr] i l]
      using ex ci by simp
  qed
qed



lemma check_write_permissions_probe:
  assumes "check_write_permissions tp ent s = (Inr u, s1)"
  shows "\<exists>f1 f2. touch (probe_file tp ent) (fs s) = Inr f1
           \<and> unlink (probe_file tp ent) f1 = Inr f2 \<and> s1 = s\<lparr> fs := f2 \<rparr>"
  using assms by (auto simp: check_write_permissions_def split: sum.splits)

lemma copy_and_import_probe:
  assumes "copy_and_import_official_module ops tp ent s = (Inr m, s1)"
  shows "\<exists>f1 f2. touch (probe_file tp ent) (fs s) = Inr f1
           \<and> unlink (probe_file tp ent) f1 = Inr f2"
proof -
  obtain r s0 where c: "check_write_permissions tp ent s = (r, s0)"
    by (cases "check_write_permissions tp ent s")
  with assms obtain u where "r = Inr u"
    by (cases r) (auto simp: copy_and_import_official_module_def)
  with c check_write_permissions_probe show ?thesis by blast
qed

lemmas ex_eval =
  copy_and_import_official_module_def check_write_permissions_def probe_file_def
  touch_def unlink_def exists_path_def writable_dir_def is_dir_def remove_entry_def
  mkdir_exist_ok_def iterdir_def existing_modules_def new_module_copy_def copytree_def
  add_ignore_comments_def ignore_comments_def append_and_import_def import_module_def
  ex_official_def ex_terminal_def ex_entropy_def ex_entropy2_def ex_process_def ex_fs_def
  ex_fs1_def ex_module_def ex_imported_def ex_module_name_def OFFICIAL_MODULE_NAME_def
  parent_def path_name_def startswith_def create_error_def Let_def

lemma ex_copy_and_import:
  "copy_and_import_official_module (ex_official ok sd) ex_terminal ex_entropy ex_process
     = (Inr ex_module, ex_imported)"
  by (simp add: ex_eval)

lemma ex_terminal_exists: "exists_path (fs ex_process) ex_terminal"
  by (simp add: exists_path_def ex_process_def ex_fs_def ex_terminal_def)

lemma ex_Client_init:
  "Client_init (ex_official True sd) ex_terminal 5001 ''pw'' ''Demo-1'' 60000 ex_entropy ex_process
     = (Inr ex_client, ex_constructed)"
  by (simp add: Client_init_def ex_terminal_exists ex_copy_and_import call_official_eq Let_def)
    (simp add: ex_official_def ex_module_def ex_imported_def ex_client_def ex_constructed_def)



lemma Client_del_eq:
  "Client_del ops self s =
     (let r = official_shutdown ops (module_objects s (official self));
          s1 = s\<lparr> module_objects := (module_objects s)(official self := snd r) \<rparr>;
          s2 = (case fst r of
                  None \<Rightarrow> s1
                | Some e \<Rightarrow>
                    s1\<lparr> stdout := stdout s1 @
                          [''Error shutting down MetaTrader5: '' @ e @ '','' @ [CHR 0x0A]
                           @ module_name_attr self @ '' in '' @ path_str (module_dir self)] \<rparr>)
      in if path_str (base_module_dir self) \<in> set (sys_path s)
         then (Inr (), s2\<lparr> sys_path := remove1 (path_str (base_module_dir self)) (sys_path s),
                           sys_modules := dict_pop (module_name_attr self) (sys_modules s) \<rparr>)
         else (Inl (ValueError NotInList), s2))"
  by (auto simp: Client_del_def call_official_eq list_remove_def Let_def split: option.splits)

lemma ex_AccountInfo_init: "AccountInfo_init ex_account = Inr ex_info"
  by (simp add: AccountInfo_init_def ex_account_def ex_info_def TradeMode_call_def
      MarginSoMode_call_def MarginMode_call_def)

lemma ex_initialize_fails:
  "official_initialize (ex_official False None) (path_str ex_terminal) 5001 ''pw'' ''Demo-1'' 60000
       True (module_objects ex_imported (official ex_module)) = (False, [''initialize''])"
  by (simp add: ex_official_def ex_imported_def ex_module_def)

lemma ex_last_error_after_initialize:
  "official_last_error (ex_official False None) [''initialize''] =
     ([PyInt (- 6), PyStr ''Authorization failed''], [''initialize'', ''last_error''])"
  by (simp add: ex_official_def)

lemma ex_readonly_facts:
  "exists_path (fs ex_readonly) ex_terminal" "\<not> writable_dir (fs ex_readonly) (parent ex_terminal)"
  by (simp_all add: ex_readonly_def ex_terminal_def exists_path_def writable_dir_def parent_def)

lemma new_module_copy_error_exists:
  assumes "new_module_copy base ent s = (Inl e, s')"
    and "exists_path (fs s') q"
  shows "exists_path (fs s) q \<or> (\<exists>n. take (length (base @ [n])) q = base @ [n])"
proof -
  define mid where "mid = map (\<lambda>c. if c = CHR ''-'' then CHR ''_'' else c) (module_uuid_str ent)"
  define mname where "mname = OFFICIAL_MODULE_NAME @ ''_'' @ mid"
  define mdir where "mdir = base @ [mname]"
  from assms(1) have "s' = s \<or> (\<exists>origin f1. copytree (parent origin) mdir (fs s) = Inr f1
      \<and> s' = s\<lparr> fs := f1 \<rparr>)"
    by (auto simp: new_module_copy_def Let_def mid_def mname_def mdir_def
        split: option.splits sum.splits)
  then show ?thesis
  proof (elim disjE exE conjE)
    assume "s' = s"
    with assms(2) show ?thesis by simp
  next
    fix origin f1
    assume ct: "copytree (parent origin) mdir (fs s) = Inr f1" and s': "s' = s\<lparr> fs := f1 \<rparr>"
    from copytree_facts [OF ct] obtain g where g: "f1 = fs s @ g"
      "\<forall>q. exists_path g q \<longrightarrow> take (length mdir) q = mdir"
      by blast
    with assms(2) s' have "exists_path (fs s) q \<or> take (length mdir) q = mdir"
      by (auto simp: exists_path_append)
    then show ?thesis unfolding mdir_def by blast
  qed
qed

lemma append_and_import_fs: "fs (snd (append_and_import ops m s)) = fs s"
proof (cases "append_and_import ops m s")
  case (Pair r s')
  then show ?thesis
    by (cases r) (auto dest: append_and_import_error append_and_import_facts(4))
qed

lemma copy_and_import_probe_gone:
  assumes "writable_dir (fs s) (parent tp)" and "\<not> is_dir (fs s) (probe_file tp ent)"
  shows "\<not> exists_path (fs (snd (copy_and_import_official_module ops tp ent s)))
           (probe_file tp ent)"
proof -
  let ?probe = "probe_file tp ent"
  let ?base = "isolation_dir tp"
  let ?s0 = "s\<lparr> fs := remove_entry ?probe (fs s) \<rparr>"
  have c: "check_write_permissions tp ent s = (Inr (), ?s0)"
    using assms by (auto simp: check_write_permissions_eq)
  have np0: "\<not> exists_path (fs ?s0) ?probe"
    by (simp add: exists_path_remove_entry)
  show ?thesis
  proof (cases "mkdir_exist_ok ?base (fs ?s0)")
    case (Inl e)
    with c np0 show ?thesis
      by (simp add: copy_and_import_official_module_def isolation_dir_def [symmetric])
  next
    case (Inr f2)
    have np: "\<not> exists_path f2 ?probe"
      using mkdir_exist_ok_cases [OF Inr] np0
      by (auto simp: exists_path_snoc)
    let ?s2 = "?s0\<lparr> fs := f2 \<rparr>"
    show ?thesis
    proof (cases "iterdir ?base f2")
      case (Inl e)
      with c Inr np show ?thesis
        by (simp add: copy_and_import_official_module_def isolation_dir_def [symmetric])
    next
      case ds: (Inr ds)
      show ?thesis
      proof (cases "existing_modules f2 ds")
        case (Cons d rest)
        with c Inr ds np show ?thesis
          by (simp add: copy_and_import_official_module_def isolation_dir_def [symmetric]
              append_and_import_fs)
      next
        case Nil
        obtain r s3 where nm: "new_module_copy ?base ent ?s2 = (r, s3)"
          by (cases "new_module_copy ?base ent ?s2")
        have np3: "\<not> exists_path (fs s3) ?probe"
        proof
          assume ex: "exists_path (fs s3) ?probe"
          show False
          proof (cases r)
            case (Inl e)
            from new_module_copy_error_exists [OF nm [unfolded Inl] ex] np
            show False
              using probe_not_below_module [of tp _ ent] by auto
          next
            case m: (Inr m)
            note n = new_module_copy_facts [OF nm [unfolded m]]
            from n(7) [OF ex] np have "take (length (module_dir m)) ?probe = module_dir m"
              by simp
            then show False
              using probe_not_below_module [of tp "module_name_attr m" ent] n(1,2) by simp
          qed
        qed
        show ?thesis
          using c Inr ds Nil nm np3
          by (cases r)
            (simp_all add: copy_and_import_official_module_def isolation_dir_def [symmetric]
              append_and_import_fs)
      qed
    qed
  qed
qed

lemma probe_file_eq_iff:
  "probe_file tp ent' = probe_file tp ent \<longleftrightarrow>
     take 8 (probe_uuid_hex ent') = take 8 (probe_uuid_hex ent)"
  by (simp add: probe_file_def)




section \<open>The properties\<close>

text \<open>
  Claim C6.  For a terminal path that does not exist the construction raises
  \<open>InitializeError\<close>, whatever the other arguments, the binding and the random values
  are, and leaves the process as it was.
\<close>

theorem Client_init_missing_terminal_path:
  "\<not> exists_path (fs s) tp \<Longrightarrow>
     Client_init ops tp acct pw srv tmo ent s =
       (Inl (InitializeError [ArgStr (''Terminal path '' @ path_str tp @ '' does not exist'')]), s)"
  by (simp add: Client_init_def)

text \<open>Witness for claim C6: the theorem at the concrete run.\<close>

theorem Client_init_missing_terminal_path_witness:
  "\<not> exists_path (fs ex_process) [''mt5'', ''terminal.exe''] \<and>
   Client_init (ex_official True None) [''mt5'', ''terminal.exe''] 5001 ''pw'' ''Demo-1'' 60000
       ex_entropy ex_process =
     (Inl (InitializeError [ArgStr ''Terminal path mt5/terminal.exe does not exist'']), ex_process)"
proof -
  have h: "\<not> exists_path (fs ex_process) [''mt5'', ''terminal.exe'']"
    by (simp add: exists_path_def ex_process_def ex_fs_def)
  show ?thesis
    using h Client_init_missing_terminal_path [OF h, of "ex_official True None" 5001 "''pw''"
        "''Demo-1''" 60000 ex_entropy]
    by simp
qed

text \<open>
  Claim C8.  The probe is the entry \<open>py2mql5_test_\<close> followed by the first eight
  hexadecimal digits of the construction's \<^verbatim>\<open>uuid4\<close> draw, in the directory of the
  terminal; draws that differ in these digits give different probe names.  For an existing
  terminal path: if the directory of the terminal is not writable, the construction raises
  \<open>InitializeError\<close> with the remediation text and leaves the process as it was.  In a
  writable directory without an entry of the probe's name, \<open>touch\<close> creates the probe file
  and \<open>unlink\<close> removes it again.  Whenever the check passes, no entry of the probe's name
  exists when the construction ends, whether it returns a \<open>Client\<close> or raises later; an
  entry of that name is only ever left where one was there before and the construction
  changed nothing.
\<close>

theorem write_permission_probe:
  assumes "exists_path (fs s) tp"
  shows "probe_file tp ent = parent tp @ [''py2mql5_test_'' @ take 8 (probe_uuid_hex ent)]
       \<and> (\<forall>ent'. take 8 (probe_uuid_hex ent') \<noteq> take 8 (probe_uuid_hex ent) \<longrightarrow>
             probe_file tp ent' \<noteq> probe_file tp ent)
       \<and> (\<not> writable_dir (fs s) (parent tp) \<longrightarrow>
            Client_init ops tp acct pw srv tmo ent s =
              (Inl (InitializeError
                      [ArgStr (''No write permission in '' @ path_str tp
                               @ ''. Please copy MetaTrader to a directory with write permissions ''
                               @ ''(avoid system directories like Program Files, C:, root, etc)'')]),
               s))
       \<and> (writable_dir (fs s) (parent tp) \<and> \<not> exists_path (fs s) (probe_file tp ent) \<longrightarrow>
            touch (probe_file tp ent) (fs s) = Inr (fs s @ [(probe_file tp ent, File [])])
            \<and> unlink (probe_file tp ent) (fs s @ [(probe_file tp ent, File [])]) = Inr (fs s))
       \<and> (writable_dir (fs s) (parent tp) \<and> \<not> is_dir (fs s) (probe_file tp ent) \<longrightarrow>
            \<not> exists_path (fs (snd (Client_init ops tp acct pw srv tmo ent s))) (probe_file tp ent))
       \<and> (exists_path (fs (snd (Client_init ops tp acct pw srv tmo ent s))) (probe_file tp ent) \<longrightarrow>
            exists_path (fs s) (probe_file tp ent)
            \<and> snd (Client_init ops tp acct pw srv tmo ent s) = s)
       \<and> (\<forall>c s'. Client_init ops tp acct pw srv tmo ent s = (Inr c, s') \<longrightarrow>
            (\<exists>f1 f2. touch (probe_file tp ent) (fs s) = Inr f1
                      \<and> unlink (probe_file tp ent) f1 = Inr f2)
            \<and> \<not> exists_path (fs s') (probe_file tp ent))"
proof -
  let ?probe = "probe_file tp ent"
  let ?ci = "Client_init ops tp acct pw srv tmo ent s"
  have name: "?probe = parent tp @ [''py2mql5_test_'' @ take 8 (probe_uuid_hex ent)]"
    by (simp add: probe_file_def)
  have uniq: "\<forall>ent'. take 8 (probe_uuid_hex ent') \<noteq> take 8 (probe_uuid_hex ent) \<longrightarrow>
             probe_file tp ent' \<noteq> ?probe"
    by (simp add: probe_file_eq_iff)
  have fail: "?ci = (Inl (no_write_permission tp), s)"
    if "\<not> (writable_dir (fs s) (parent tp) \<and> \<not> is_dir (fs s) ?probe)"
  proof -
    from that have "check_write_permissions tp ent s = (Inl (no_write_permission tp), s)"
      by (auto simp: check_write_permissions_eq)
    then show ?thesis
      using assms by (simp add: Client_init_def copy_and_import_official_module_def)
  qed
  have ro: "\<not> writable_dir (fs s) (parent tp) \<longrightarrow>
            ?ci = (Inl (InitializeError
                      [ArgStr (''No write permission in '' @ path_str tp
                               @ ''. Please copy MetaTrader to a directory with write permissions ''
                               @ ''(avoid system directories like Program Files, C:, root, etc)'')]),
               s)"
    using fail by (auto simp: no_write_permission_def)
  have tu: "touch ?probe (fs s) = Inr (fs s @ [(?probe, File [])])
            \<and> unlink ?probe (fs s @ [(?probe, File [])]) = Inr (fs s)"
    if "writable_dir (fs s) (parent tp)" "\<not> exists_path (fs s) ?probe"
    using that
    by (auto simp: touch_def unlink_def exists_path_def writable_dir_def probe_file_def
        map_of_append_left remove_entry_snoc remove_entry_absent map_add_def)
  have gone: "\<not> exists_path (fs (snd ?ci)) ?probe"
    if "writable_dir (fs s) (parent tp)" "\<not> is_dir (fs s) ?probe"
    using copy_and_import_probe_gone [OF that] assms
    by (simp add: Client_init_fs)
  have left: "exists_path (fs s) ?probe \<and> snd ?ci = s" if "exists_path (fs (snd ?ci)) ?probe"
  proof (cases "writable_dir (fs s) (parent tp) \<and> \<not> is_dir (fs s) ?probe")
    case True
    with gone that show ?thesis by blast
  next
    case False
    from fail [OF False] that show ?thesis by simp
  qed
  have succ: "(\<exists>f1 f2. touch ?probe (fs s) = Inr f1 \<and> unlink ?probe f1 = Inr f2)
            \<and> \<not> exists_path (fs s') ?probe"
    if ok: "?ci = (Inr c, s')" for c s'
  proof -
    from Client_init_success [OF ok] obtain m s1 where
      ci: "copy_and_import_official_module ops tp ent s = (Inr m, s1)" and fs': "fs s' = fs s1"
      by blast
    from copy_and_import_probe [OF ci] copy_and_import_success(7) [OF ci] fs'
    show ?thesis by simp
  qed
  from name uniq ro tu gone left succ show ?thesis by blast
qed

text \<open>Witness for claim C8: the theorem at the concrete runs.\<close>

theorem write_permission_probe_witness:
  "exists_path (fs ex_readonly) ex_terminal
   \<and> \<not> writable_dir (fs ex_readonly) (parent ex_terminal)
   \<and> Client_init (ex_official True None) ex_terminal 5001 ''pw'' ''Demo-1'' 60000 ex_entropy
        ex_readonly =
       (Inl (InitializeError
               [ArgStr (''No write permission in mt5/terminal64.exe. ''
                        @ ''Please copy MetaTrader to a directory with write permissions ''
                        @ ''(avoid system directories like Program Files, C:, root, etc)'')]),
        ex_readonly)
   \<and> exists_path (fs ex_process) ex_terminal
   \<and> writable_dir (fs ex_process) (parent ex_terminal)
   \<and> probe_file ex_terminal ex_entropy = [''mt5'', ''py2mql5_test_01234567'']
   \<and> take 8 (probe_uuid_hex ex_entropy2) \<noteq> take 8 (probe_uuid_hex ex_entropy)
   \<and> probe_file ex_terminal ex_entropy2 \<noteq> probe_file ex_terminal ex_entropy
   \<and> \<not> exists_path (fs ex_process) [''mt5'', ''py2mql5_test_01234567'']
   \<and> touch [''mt5'', ''py2mql5_test_01234567''] (fs ex_process) =
       Inr (ex_fs @ [([''mt5'', ''py2mql5_test_01234567''], File [])])
   \<and> unlink [''mt5'', ''py2mql5_test_01234567'']
         (ex_fs @ [([''mt5'', ''py2mql5_test_01234567''], File [])]) = Inr ex_fs
   \<and> Client_init (ex_official True None) ex_terminal 5001 ''pw'' ''Demo-1'' 60000 ex_entropy
        ex_process = (Inr ex_client, ex_constructed)
   \<and> \<not> exists_path (fs ex_constructed) [''mt5'', ''py2mql5_test_01234567'']
   \<and> \<not> exists_path (fs (snd (Client_init (ex_official False None) ex_terminal 5001 ''pw''
                                ''Demo-1'' 60000 ex_entropy ex_process)))
         [''mt5'', ''py2mql5_test_01234567'']"
proof -
  have p: "probe_file ex_terminal ex_entropy = [''mt5'', ''py2mql5_test_01234567'']"
    by (simp add: probe_file_def ex_terminal_def ex_entropy_def parent_def)
  have w: "writable_dir (fs ex_process) (parent ex_terminal)"
    by (simp add: writable_dir_def parent_def ex_process_def ex_fs_def ex_terminal_def)
  have ne: "\<not> exists_path (fs ex_process) [''mt5'', ''py2mql5_test_01234567'']"
    by (simp add: exists_path_def ex_process_def ex_fs_def)
  have nd: "\<not> is_dir (fs ex_process) (probe_file ex_terminal ex_entropy)"
    using ne by (auto simp: p dest: is_dir_exists)
  have f: "fs ex_process = ex_fs" by (simp add: ex_process_def)
  have d: "take 8 (probe_uuid_hex ex_entropy2) \<noteq> take 8 (probe_uuid_hex ex_entropy)"
    by (simp add: ex_entropy_def ex_entropy2_def)
  note ro = write_permission_probe [OF ex_readonly_facts(1),
      where ops = "ex_official True None" and acct = 5001 and pw = "''pw''"
        and srv = "''Demo-1''" and tmo = 60000 and ent = ex_entropy]
  note ok = write_permission_probe [OF ex_terminal_exists,
      where ops = "ex_official True None" and acct = 5001 and pw = "''pw''"
        and srv = "''Demo-1''" and tmo = 60000 and ent = ex_entropy]
  note bad = write_permission_probe [OF ex_terminal_exists,
      where ops = "ex_official False None" and acct = 5001 and pw = "''pw''"
        and srv = "''Demo-1''" and tmo = 60000 and ent = ex_entropy]
  from ro ex_readonly_facts(2)
  have 1: "Client_init (ex_official True None) ex_terminal 5001 ''pw'' ''Demo-1'' 60000 ex_entropy
        ex_readonly =
       (Inl (InitializeError
               [ArgStr (''No write permission in mt5/terminal64.exe. ''
                        @ ''Please copy MetaTrader to a directory with write permissions ''
                        @ ''(avoid system directories like Program Files, C:, root, etc)'')]),
        ex_readonly)"
    by (simp add: ex_terminal_def)
  from ok d have 2: "probe_file ex_terminal ex_entropy2 \<noteq> probe_file ex_terminal ex_entropy"
    by blast
  have ne': "\<not> exists_path (fs ex_process) (probe_file ex_terminal ex_entropy)"
    unfolding p by (rule ne)
  from ok w ne'
  have "touch (probe_file ex_terminal ex_entropy) (fs ex_process) =
          Inr (fs ex_process @ [(probe_file ex_terminal ex_entropy, File [])])
     \<and> unlink (probe_file ex_terminal ex_entropy)
          (fs ex_process @ [(probe_file ex_terminal ex_entropy, File [])]) = Inr (fs ex_process)"
    by blast
  then have 3: "touch [''mt5'', ''py2mql5_test_01234567''] (fs ex_process) =
       Inr (ex_fs @ [([''mt5'', ''py2mql5_test_01234567''], File [])])
     \<and> unlink [''mt5'', ''py2mql5_test_01234567'']
         (ex_fs @ [([''mt5'', ''py2mql5_test_01234567''], File [])]) = Inr ex_fs"
    unfolding p f .
  from ok ex_Client_init [of None]
  have "\<not> exists_path (fs ex_constructed) (probe_file ex_terminal ex_entropy)"
    by blast
  then have 4: "\<not> exists_path (fs ex_constructed) [''mt5'', ''py2mql5_test_01234567'']"
    unfolding p .
  from bad w nd
  have "\<not> exists_path (fs (snd (Client_init (ex_official False None) ex_terminal 5001 ''pw''
                                ''Demo-1'' 60000 ex_entropy ex_process)))
         (probe_file ex_terminal ex_entropy)"
    by blast
  then have 5: "\<not> exists_path (fs (snd (Client_init (ex_official False None) ex_terminal 5001
                                ''pw'' ''Demo-1'' 60000 ex_entropy ex_process)))
         [''mt5'', ''py2mql5_test_01234567'']"
    unfolding p .
  from 1 2 3 4 5 p w ne d ex_readonly_facts ex_terminal_exists ex_Client_init [of None]
  show ?thesis by blast
qed



text \<open>
  Claim C5.  When the import has succeeded and the binding's \<open>initialize\<close> answers
  \<open>False\<close>, the construction returns no \<open>Client\<close> but an exception; the binding has then
  been called for \<open>initialize\<close> and \<open>last_error\<close> and nothing else, and nothing was
  printed; and the exception is \<open>InitializeError\<close> with the last error as its first
  argument whenever \<open>last_error\<close> delivers its two elements.
\<close>

theorem initialize_failure_raises:
  assumes "exists_path (fs s) tp"
    and "copy_and_import_official_module ops tp ent s = (Inr m, s1)"
    and "official_initialize ops (path_str tp) acct pw srv tmo True
           (module_objects s1 (official m)) = (False, b)"
    and "official_last_error ops b = (t, b')"
  shows "(\<exists>e. fst (Client_init ops tp acct pw srv tmo ent s) = Inl e)
       \<and> snd (Client_init ops tp acct pw srv tmo ent s) =
           s1\<lparr> module_objects := (module_objects s1)(official m := b') \<rparr>
       \<and> (2 \<le> length t \<longrightarrow>
            fst (Client_init ops tp acct pw srv tmo ent s) =
              Inl (InitializeError
                     [ArgLastError \<lparr> error_code = t ! 0, error_description = t ! 1 \<rparr>,
                      ArgStr ''ensure you can login manually with portable mode: True'']))"
  by (simp add: Client_init_after_import [OF assms])

text \<open>Witness for claim C5: the theorem at the concrete run.\<close>

theorem initialize_failure_raises_witness:
  "exists_path (fs ex_process) ex_terminal
   \<and> copy_and_import_official_module (ex_official False None) ex_terminal ex_entropy ex_process
       = (Inr ex_module, ex_imported)
   \<and> official_initialize (ex_official False None) (path_str ex_terminal) 5001 ''pw'' ''Demo-1''
       60000 True (module_objects ex_imported (official ex_module)) = (False, [''initialize''])
   \<and> official_last_error (ex_official False None) [''initialize''] =
       ([PyInt (- 6), PyStr ''Authorization failed''], [''initialize'', ''last_error''])
   \<and> fst (Client_init (ex_official False None) ex_terminal 5001 ''pw'' ''Demo-1'' 60000
            ex_entropy ex_process) =
       Inl (InitializeError
              [ArgLastError \<lparr> error_code = PyInt (- 6),
                               error_description = PyStr ''Authorization failed'' \<rparr>,
               ArgStr ''ensure you can login manually with portable mode: True''])
   \<and> module_objects (snd (Client_init (ex_official False None) ex_terminal 5001 ''pw'' ''Demo-1''
            60000 ex_entropy ex_process)) 0 = [''initialize'', ''last_error'']
   \<and> stdout (snd (Client_init (ex_official False None) ex_terminal 5001 ''pw'' ''Demo-1''
            60000 ex_entropy ex_process)) = []"
proof -
  note t = initialize_failure_raises [OF ex_terminal_exists ex_copy_and_import
      ex_initialize_fails ex_last_error_after_initialize]
  from t have 1: "fst (Client_init (ex_official False None) ex_terminal 5001 ''pw'' ''Demo-1''
        60000 ex_entropy ex_process) =
       Inl (InitializeError
              [ArgLastError \<lparr> error_code = PyInt (- 6),
                               error_description = PyStr ''Authorization failed'' \<rparr>,
               ArgStr ''ensure you can login manually with portable mode: True''])"
    by simp
  from t have 2: "module_objects (snd (Client_init (ex_official False None) ex_terminal 5001
        ''pw'' ''Demo-1'' 60000 ex_entropy ex_process)) 0 = [''initialize'', ''last_error'']
     \<and> stdout (snd (Client_init (ex_official False None) ex_terminal 5001 ''pw'' ''Demo-1''
            60000 ex_entropy ex_process)) = []"
    by (simp add: ex_module_def ex_imported_def)
  from 1 2 ex_terminal_exists ex_copy_and_import [of False None] ex_initialize_fails
    ex_last_error_after_initialize
  show ?thesis by blast
qed




text \<open>
  Claim C9.  \<^verbatim>\<open>login\<close> calls the binding's \<open>login\<close> on the module object of the
  client with the arguments it was given.  On \<open>True\<close> it returns no value and prints one
  line; on \<open>False\<close> it raises, after one call of \<open>last_error\<close>, and the exception is
  \<open>LoginError\<close> carrying the last error whenever \<open>last_error\<close> delivers its two elements.
\<close>

theorem login_forwards:
  assumes "official_login ops acct pw srv tmo (module_objects s (official self)) = (ok, b)"
    and "official_last_error ops b = (t, b')"
  shows "(ok \<longrightarrow>
            Client_login ops self acct pw srv tmo s =
              (Inr (), s\<lparr> module_objects := (module_objects s)(official self := b),
                           stdout := stdout s @ [''Login successful''] \<rparr>))
       \<and> (\<not> ok \<longrightarrow>
            (\<exists>e. fst (Client_login ops self acct pw srv tmo s) = Inl e) \<and>
            snd (Client_login ops self acct pw srv tmo s) =
              s\<lparr> module_objects := (module_objects s)(official self := b') \<rparr>)
       \<and> (\<not> ok \<and> 2 \<le> length t \<longrightarrow>
            fst (Client_login ops self acct pw srv tmo s) =
              Inl (LoginError [ArgLastError \<lparr> error_code = t ! 0, error_description = t ! 1 \<rparr>]))"
proof -
  let ?s1 = "s\<lparr> module_objects := (module_objects s)(official self := b) \<rparr>"
  have le: "official_last_error ops (module_objects ?s1 (official self)) = (t, b')"
    using assms(2) by simp
  show ?thesis
    using assms(1)
    by (simp add: Client_login_def call_official_eq Client_last_error_eq [OF le])
qed

text \<open>Witness for claim C9: the theorem at the concrete run.\<close>

theorem login_forwards_witness:
  "official_login (ex_official True None) 5002 ''pw2'' ''Demo-2'' 60000
       (module_objects ex_constructed (official ex_client)) = (True, [''initialize'', ''login''])
   \<and> fst (Client_login (ex_official True None) ex_client 5002 ''pw2'' ''Demo-2'' 60000
            ex_constructed) = Inr ()
   \<and> module_objects (snd (Client_login (ex_official True None) ex_client 5002 ''pw2'' ''Demo-2''
            60000 ex_constructed)) 0 = [''initialize'', ''login'']
   \<and> official_login (ex_official False None) 5002 ''bad'' ''Demo-2'' 60000
       (module_objects ex_constructed (official ex_client)) = (False, [''initialize'', ''login''])
   \<and> official_last_error (ex_official False None) [''initialize'', ''login''] =
       ([PyInt (- 6), PyStr ''Authorization failed''], [''initialize'', ''login'', ''last_error''])
   \<and> fst (Client_login (ex_official False None) ex_client 5002 ''bad'' ''Demo-2'' 60000
            ex_constructed) =
       Inl (LoginError [ArgLastError \<lparr> error_code = PyInt (- 6),
                                        error_description = PyStr ''Authorization failed'' \<rparr>])"
proof -
  have l1: "official_login (ex_official True None) 5002 ''pw2'' ''Demo-2'' 60000
       (module_objects ex_constructed (official ex_client)) = (True, [''initialize'', ''login''])"
    by (simp add: ex_official_def ex_constructed_def ex_client_def)
  have e1: "official_last_error (ex_official True None) [''initialize'', ''login''] =
       ([PyInt (- 6), PyStr ''Authorization failed''], [''initialize'', ''login'', ''last_error''])"
    by (simp add: ex_official_def)
  have l2: "official_login (ex_official False None) 5002 ''bad'' ''Demo-2'' 60000
       (module_objects ex_constructed (official ex_client)) = (False, [''initialize'', ''login''])"
    by (simp add: ex_official_def ex_constructed_def ex_client_def)
  have e2: "official_last_error (ex_official False None) [''initialize'', ''login''] =
       ([PyInt (- 6), PyStr ''Authorization failed''], [''initialize'', ''login'', ''last_error''])"
    by (simp add: ex_official_def)
  from login_forwards [OF l1 e1]
  have 1: "fst (Client_login (ex_official True None) ex_client 5002 ''pw2'' ''Demo-2'' 60000
            ex_constructed) = Inr ()
     \<and> module_objects (snd (Client_login (ex_official True None) ex_client 5002 ''pw2'' ''Demo-2''
            60000 ex_constructed)) 0 = [''initialize'', ''login'']"
    by (simp add: ex_client_def)
  from login_forwards [OF l2 e2]
  have 2: "fst (Client_login (ex_official False None) ex_client 5002 ''bad'' ''Demo-2'' 60000
            ex_constructed) =
       Inl (LoginError [ArgLastError \<lparr> error_code = PyInt (- 6),
                                        error_description = PyStr ''Authorization failed'' \<rparr>])"
    by simp
  from l1 l2 e2 1 2 show ?thesis by blast
qed

text \<open>
  Claim C7.  After a successful construction, in any later state: when the binding's
  \<open>version\<close> returns the 3-tuple \<open>(v0, v1, v2)\<close> and its \<open>last_error\<close> the 2-tuple
  \<open>(e0, e1)\<close>, \<^verbatim>\<open>version()\<close> and \<^verbatim>\<open>last_error()\<close> return the records with these
  elements in this order.
\<close>

theorem version_last_error_positional:
  assumes "Client_init ops tp acct pw srv tmo ent s0 = (Inr self, s1)"
    and "fst (official_version ops (module_objects s (official self))) = [v0, v1, v2]"
    and "fst (official_last_error ops (module_objects s (official self))) = [e0, e1]"
  shows "fst (Client_version ops self s) =
           Inr \<lparr> metatrader5_terminal_version = v0, build = v1, date = v2 \<rparr> \<and>
         fst (Client_last_error ops self s) =
           Inr \<lparr> error_code = e0, error_description = e1 \<rparr>"
  using assms(2,3)
  by (simp add: Client_version_def Client_last_error_def call_official_def tuple_get_def
      case_prod_beta)

text \<open>Witness for claim C7: the theorem at the concrete run.\<close>

theorem version_last_error_positional_witness:
  "Client_init (ex_official True None) ex_terminal 5001 ''pw'' ''Demo-1'' 60000 ex_entropy
       ex_process = (Inr ex_client, ex_constructed)
   \<and> fst (official_version (ex_official True None)
            (module_objects ex_constructed (official ex_client))) =
       [PyInt 500, PyInt 2007, PyStr ''25 Feb 2019'']
   \<and> fst (official_last_error (ex_official True None)
            (module_objects ex_constructed (official ex_client))) =
       [PyInt (- 6), PyStr ''Authorization failed'']
   \<and> fst (Client_version (ex_official True None) ex_client ex_constructed) =
       Inr \<lparr> metatrader5_terminal_version = PyInt 500, build = PyInt 2007,
             date = PyStr ''25 Feb 2019'' \<rparr>
   \<and> fst (Client_last_error (ex_official True None) ex_client ex_constructed) =
       Inr \<lparr> error_code = PyInt (- 6), error_description = PyStr ''Authorization failed'' \<rparr>"
proof -
  have v: "fst (official_version (ex_official True None)
            (module_objects ex_constructed (official ex_client))) =
       [PyInt 500, PyInt 2007, PyStr ''25 Feb 2019'']"
    by (simp add: ex_official_def)
  have e: "fst (official_last_error (ex_official True None)
            (module_objects ex_constructed (official ex_client))) =
       [PyInt (- 6), PyStr ''Authorization failed'']"
    by (simp add: ex_official_def)
  from version_last_error_positional [OF ex_Client_init v e] ex_Client_init [of None] v e
  show ?thesis by blast
qed

text \<open>
  Claim C3.  Let \<open>x\<close> be the object the binding returns to \<^verbatim>\<open>account_info()\<close>.  With
  trade mode code 2 and valid codes in the two other mode fields the call returns an
  \<open>AccountInfo\<close> whose trade mode is \<open>REAL\<close>, and whenever it returns one for code 2 the
  trade mode is \<open>REAL\<close>.  For each of the three fields, a code outside the values of its
  enumeration makes the enumeration call, and with it \<^verbatim>\<open>account_info()\<close>, raise
  \<open>ValueError\<close>.
\<close>

theorem account_info_enum_codes:
  assumes "fst (official_account_info ops (module_objects s (official self))) = x"
  shows "(o_trade_mode x = 2 \<and> o_margin_so_mode x \<in> {0, 1} \<and> o_margin_mode x \<in> {0, 1, 2} \<longrightarrow>
            (\<exists>a. fst (Client_account_info ops self s) = Inr a \<and> trade_mode a = REAL))
       \<and> (o_trade_mode x = 2 \<longrightarrow>
            (\<forall>a. fst (Client_account_info ops self s) = Inr a \<longrightarrow> trade_mode a = REAL))
       \<and> (o_trade_mode x \<notin> {0, 1, 2} \<longrightarrow>
            TradeMode_call (o_trade_mode x) = Inl (ValueError (NotAValid ''TradeMode'' (o_trade_mode x)))
            \<and> fst (Client_account_info ops self s) =
                Inl (ValueError (NotAValid ''TradeMode'' (o_trade_mode x))))
       \<and> (o_margin_so_mode x \<notin> {0, 1} \<longrightarrow>
            MarginSoMode_call (o_margin_so_mode x) =
              Inl (ValueError (NotAValid ''MarginSoMode'' (o_margin_so_mode x)))
            \<and> (\<exists>e. fst (Client_account_info ops self s) = Inl (ValueError e)))
       \<and> (o_margin_mode x \<notin> {0, 1, 2} \<longrightarrow>
            MarginMode_call (o_margin_mode x) =
              Inl (ValueError (NotAValid ''MarginMode'' (o_margin_mode x)))
            \<and> (\<exists>e. fst (Client_account_info ops self s) = Inl (ValueError e)))"
proof -
  have ai: "fst (Client_account_info ops self s) = AccountInfo_init x"
    using assms by (simp add: Client_account_info_def call_official_eq)
  show ?thesis
    unfolding ai
    by (simp add: AccountInfo_init_def TradeMode_call_def MarginSoMode_call_def
        MarginMode_call_def)
qed

text \<open>Witness for claim C3: the theorem at the concrete run.\<close>

theorem account_info_enum_codes_witness:
  "fst (official_account_info (ex_official True None)
          (module_objects ex_constructed (official ex_client))) = ex_account
   \<and> o_trade_mode ex_account = 2 \<and> o_margin_so_mode ex_account \<in> {0, 1}
   \<and> o_margin_mode ex_account \<in> {0, 1, 2}
   \<and> (\<exists>a. fst (Client_account_info (ex_official True None) ex_client ex_constructed) = Inr a
            \<and> trade_mode a = REAL)
   \<and> fst (Client_account_info (ex_official_codes 3 0 2) ex_client ex_constructed) =
       Inl (ValueError (NotAValid ''TradeMode'' 3))
   \<and> (\<exists>e. fst (Client_account_info (ex_official_codes 2 2 2) ex_client ex_constructed) =
            Inl (ValueError e))
   \<and> (\<exists>e. fst (Client_account_info (ex_official_codes 2 0 (- 1)) ex_client ex_constructed) =
            Inl (ValueError e))"
proof -
  have a: "fst (official_account_info (ex_official True None)
                  (module_objects ex_constructed (official ex_client))) = ex_account"
    by (simp add: ex_official_def)
  have b: "fst (official_account_info (ex_official_codes tm sm mm)
                  (module_objects ex_constructed (official ex_client))) =
             ex_account\<lparr> o_trade_mode := tm, o_margin_so_mode := sm, o_margin_mode := mm \<rparr>"
    for tm sm mm
    by (simp add: ex_official_codes_def)
  have v: "o_trade_mode ex_account = 2 \<and> o_margin_so_mode ex_account \<in> {0, 1}
           \<and> o_margin_mode ex_account \<in> {0, 1, 2}"
    by (simp add: ex_account_def)
  from account_info_enum_codes [OF a] v
  have 1: "\<exists>a. fst (Client_account_info (ex_official True None) ex_client ex_constructed) = Inr a
            \<and> trade_mode a = REAL"
    by blast
  from account_info_enum_codes [OF b [of 3 0 2]]
  have 2: "fst (Client_account_info (ex_official_codes 3 0 2) ex_client ex_constructed) =
       Inl (ValueError (NotAValid ''TradeMode'' 3))"
    by simp
  from account_info_enum_codes [OF b [of 2 2 2]]
  have 3: "\<exists>e. fst (Client_account_info (ex_official_codes 2 2 2) ex_client ex_constructed) =
            Inl (ValueError e)"
    by simp
  from account_info_enum_codes [OF b [of 2 0 "- 1"]]
  have 4: "\<exists>e. fst (Client_account_info (ex_official_codes 2 0 (- 1)) ex_client ex_constructed) =
            Inl (ValueError e)"
    by simp
  from a v 1 2 3 4 show ?thesis by blast
qed

text \<open>
  Claim C2, as the code has it.  \<^verbatim>\<open>account_info()\<close> builds its result from the object
  the binding returns at that call and changes nothing but the state of the binding; the
  25 plain attributes are copied as they are and the three mode attributes are the
  enumeration members of the three integer codes.  \<open>AccountInfo\<close> is not frozen: an
  assignment to any of its attributes is stored, whereas an assignment to an attribute of
  \<open>MT5LastError\<close> or \<open>TerminalVersion\<close> raises \<open>FrozenInstanceError\<close>.
\<close>

theorem account_info_snapshot:
  "fst (Client_account_info ops self s) =
     AccountInfo_init (fst (official_account_info ops (module_objects s (official self))))
   \<and> snd (Client_account_info ops self s) =
       s\<lparr> module_objects := (module_objects s)(official self :=
              snd (official_account_info ops (module_objects s (official self)))) \<rparr>
   \<and> (\<forall>x a. AccountInfo_init x = Inr a \<longrightarrow>
              login a = o_login x
              \<and> TradeMode_call (o_trade_mode x) = Inr (trade_mode a)
              \<and> leverage a = o_leverage x
              \<and> limit_orders a = o_limit_orders x
              \<and> MarginSoMode_call (o_margin_so_mode x) = Inr (margin_so_mode a)
              \<and> trade_allowed a = o_trade_allowed x
              \<and> trade_expert a = o_trade_expert x
              \<and> MarginMode_call (o_margin_mode x) = Inr (margin_mode a)
              \<and> currency_digits a = o_currency_digits x
              \<and> fifo_close a = o_fifo_close x
              \<and> balance a = o_balance x
              \<and> credit a = o_credit x
              \<and> profit a = o_profit x
              \<and> equity a = o_equity x
              \<and> margin a = o_margin x
              \<and> margin_free a = o_margin_free x
              \<and> margin_level a = o_margin_level x
              \<and> margin_so_call a = o_margin_so_call x
              \<and> margin_so_so a = o_margin_so_so x
              \<and> margin_initial a = o_margin_initial x
              \<and> margin_maintenance a = o_margin_maintenance x
              \<and> assets a = o_assets x
              \<and> liabilities a = o_liabilities x
              \<and> commission_blocked a = o_commission_blocked x
              \<and> name a = o_name x
              \<and> server a = o_server x
              \<and> currency a = o_currency x
              \<and> company a = o_company x)
   \<and> (\<forall>u a. AccountInfo_setattr u a = Inr (AccountInfo_store u a))
   \<and> (\<forall>u e. MT5LastError_setattr u e = Inl FrozenInstanceError)
   \<and> (\<forall>u v. TerminalVersion_setattr u v = Inl FrozenInstanceError)"
proof -
  have copy: "login a = o_login x
              \<and> TradeMode_call (o_trade_mode x) = Inr (trade_mode a)
              \<and> leverage a = o_leverage x
              \<and> limit_orders a = o_limit_orders x
              \<and> MarginSoMode_call (o_margin_so_mode x) = Inr (margin_so_mode a)
              \<and> trade_allowed a = o_trade_allowed x
              \<and> trade_expert a = o_trade_expert x
              \<and> MarginMode_call (o_margin_mode x) = Inr (margin_mode a)
              \<and> currency_digits a = o_currency_digits x
              \<and> fifo_close a = o_fifo_close x
              \<and> balance a = o_balance x
              \<and> credit a = o_credit x
              \<and> profit a = o_profit x
              \<and> equity a = o_equity x
              \<and> margin a = o_margin x
              \<and> margin_free a = o_margin_free x
              \<and> margin_level a = o_margin_level x
              \<and> margin_so_call a = o_margin_so_call x
              \<and> margin_so_so a = o_margin_so_so x
              \<and> margin_initial a = o_margin_initial x
              \<and> margin_maintenance a = o_margin_maintenance x
              \<and> assets a = o_assets x
              \<and> liabilities a = o_liabilities x
              \<and> commission_blocked a = o_commission_blocked x
              \<and> name a = o_name x
              \<and> server a = o_server x
              \<and> currency a = o_currency x
              \<and> company a = o_company x"
    if "AccountInfo_init x = Inr a" for x a
    using that by (auto simp: AccountInfo_init_def split: sum.splits)
  have call: "fst (Client_account_info ops self s) =
     AccountInfo_init (fst (official_account_info ops (module_objects s (official self))))"
    "snd (Client_account_info ops self s) =
       s\<lparr> module_objects := (module_objects s)(official self :=
              snd (official_account_info ops (module_objects s (official self)))) \<rparr>"
    by (simp_all add: Client_account_info_def call_official_eq)
  have assign: "AccountInfo_setattr u a = Inr (AccountInfo_store u a)"
    "MT5LastError_setattr u' e = Inl FrozenInstanceError"
    "TerminalVersion_setattr u'' v = Inl FrozenInstanceError" for u a u' e u'' v
    by (simp_all add: AccountInfo_setattr_def MT5LastError_setattr_def
        TerminalVersion_setattr_def setattr_allowed_def)
  from copy call assign show ?thesis by blast
qed

text \<open>The run of that theorem on the concrete account object.\<close>

theorem account_info_snapshot_witness:
  "AccountInfo_init ex_account = Inr ex_info
   \<and> fst (Client_account_info (ex_official True None) ex_client ex_constructed) = Inr ex_info
   \<and> login ex_info = o_login ex_account
   \<and> TradeMode_call (o_trade_mode ex_account) = Inr (trade_mode ex_info)
   \<and> leverage ex_info = o_leverage ex_account
   \<and> limit_orders ex_info = o_limit_orders ex_account
   \<and> MarginSoMode_call (o_margin_so_mode ex_account) = Inr (margin_so_mode ex_info)
   \<and> trade_allowed ex_info = o_trade_allowed ex_account
   \<and> trade_expert ex_info = o_trade_expert ex_account
   \<and> MarginMode_call (o_margin_mode ex_account) = Inr (margin_mode ex_info)
   \<and> currency_digits ex_info = o_currency_digits ex_account
   \<and> fifo_close ex_info = o_fifo_close ex_account
   \<and> balance ex_info = o_balance ex_account
   \<and> credit ex_info = o_credit ex_account
   \<and> profit ex_info = o_profit ex_account
   \<and> equity ex_info = o_equity ex_account
   \<and> margin ex_info = o_margin ex_account
   \<and> margin_free ex_info = o_margin_free ex_account
   \<and> margin_level ex_info = o_margin_level ex_account
   \<and> margin_so_call ex_info = o_margin_so_call ex_account
   \<and> margin_so_so ex_info = o_margin_so_so ex_account
   \<and> margin_initial ex_info = o_margin_initial ex_account
   \<and> margin_maintenance ex_info = o_margin_maintenance ex_account
   \<and> assets ex_info = o_assets ex_account
   \<and> liabilities ex_info = o_liabilities ex_account
   \<and> commission_blocked ex_info = o_commission_blocked ex_account
   \<and> name ex_info = o_name ex_account
   \<and> server ex_info = o_server ex_account
   \<and> currency ex_info = o_currency ex_account
   \<and> company ex_info = o_company ex_account
   \<and> AccountInfo_setattr (Set_balance 99) ex_info = Inr (ex_info\<lparr> balance := 99 \<rparr>)"
proof -
  have a: "fst (official_account_info (ex_official True None)
                  (module_objects ex_constructed (official ex_client))) = ex_account"
    by (simp add: ex_official_def)
  note t = account_info_snapshot [of "ex_official True None" ex_client ex_constructed]
  from t have c: "fst (Client_account_info (ex_official True None) ex_client ex_constructed)
      = Inr ex_info"
    by (simp add: a ex_AccountInfo_init)
  from t ex_AccountInfo_init have f: "login ex_info = o_login ex_account
      \<and> TradeMode_call (o_trade_mode ex_account) = Inr (trade_mode ex_info)
      \<and> leverage ex_info = o_leverage ex_account
      \<and> limit_orders ex_info = o_limit_orders ex_account
      \<and> MarginSoMode_call (o_margin_so_mode ex_account) = Inr (margin_so_mode ex_info)
      \<and> trade_allowed ex_info = o_trade_allowed ex_account
      \<and> trade_expert ex_info = o_trade_expert ex_account
      \<and> MarginMode_call (o_margin_mode ex_account) = Inr (margin_mode ex_info)
      \<and> currency_digits ex_info = o_currency_digits ex_account
      \<and> fifo_close ex_info = o_fifo_close ex_account
      \<and> balance ex_info = o_balance ex_account
      \<and> credit ex_info = o_credit ex_account
      \<and> profit ex_info = o_profit ex_account
      \<and> equity ex_info = o_equity ex_account
      \<and> margin ex_info = o_margin ex_account
      \<and> margin_free ex_info = o_margin_free ex_account
      \<and> margin_level ex_info = o_margin_level ex_account
      \<and> margin_so_call ex_info = o_margin_so_call ex_account
      \<and> margin_so_so ex_info = o_margin_so_so ex_account
      \<and> margin_initial ex_info = o_margin_initial ex_account
      \<and> margin_maintenance ex_info = o_margin_maintenance ex_account
      \<and> assets ex_info = o_assets ex_account
      \<and> liabilities ex_info = o_liabilities ex_account
      \<and> commission_blocked ex_info = o_commission_blocked ex_account
      \<and> name ex_info = o_name ex_account
      \<and> server ex_info = o_server ex_account
      \<and> currency ex_info = o_currency ex_account
      \<and> company ex_info = o_company ex_account"
    by blast
  from t have s: "AccountInfo_setattr (Set_balance 99) ex_info = Inr (ex_info\<lparr> balance := 99 \<rparr>)"
    by simp
  from c f s ex_AccountInfo_init show ?thesis by blast
qed

text \<open>
  Claim C2 as stated fails: the \<open>AccountInfo\<close> returned by \<^verbatim>\<open>account_info()\<close> in the
  concrete run accepts the assignment \<^verbatim>\<open>info.login = 7\<close>, and its login is changed.
\<close>

theorem AccountInfo_reassignment_counterexample:
  "fst (Client_account_info (ex_official True None) ex_client ex_constructed) = Inr ex_info
   \<and> AccountInfo_setattr (Set_login 7) ex_info = Inr (ex_info\<lparr> login := 7 \<rparr>)
   \<and> login (ex_info\<lparr> login := 7 \<rparr>) \<noteq> login ex_info"
  by (simp add: Client_account_info_def call_official_eq ex_official_def ex_AccountInfo_init
      AccountInfo_setattr_def setattr_allowed_def)
    (simp add: ex_info_def)

text \<open>
  Claim C1 (disposal never raises, also when repeated).  The run below constructs one
  \<open>Client\<close> and calls \<^verbatim>\<open>__del__\<close> on it twice.  The first call returns; the second
  finds the isolation directory no longer in \<^verbatim>\<open>sys.path\<close>, and the unguarded
  \<^verbatim>\<open>sys.path.remove\<close> raises \<open>ValueError\<close>.
\<close>

theorem repeated_disposal_raises:
  "Client_init (ex_official True None) ex_terminal 5001 ''pw'' ''Demo-1'' 60000 ex_entropy
       ex_process = (Inr ex_client, ex_constructed)
   \<and> fst (Client_del (ex_official True None) ex_client ex_constructed) = Inr ()
   \<and> fst (Client_del (ex_official True None) ex_client
            (snd (Client_del (ex_official True None) ex_client ex_constructed)))
       = Inl (ValueError NotInList)"
  by (simp add: ex_Client_init Client_del_eq Let_def)
    (simp add: ex_client_def ex_constructed_def ex_official_def)

end
